theory Spec2Isabelle
  imports Main
begin

section \<open>The custom-object resolver of \<open>freqtrade/resolvers/iresolver.py\<close>\<close>

text \<open>
  The resolver loads every Python file of a directory, looks in each loaded module for a
  class with a requested name that lists a given class among its direct bases, and
  instantiates the class when exactly one file provides it.

  What Python and the file system do is a parameter of the model: a directory is the list
  of entries \<open>iterdir\<close> yields, and a loader says, for each module path, which members
  the module has once \<open>exec_module\<close> has returned or raised, and what it raised.
  Logging, the execution of a module and the call of a constructor are recorded as
  events, in program order.
\<close>

subsection \<open>Python values, classes and exceptions\<close>

datatype py_value = PyInt int | PyStr string

text \<open>A \<open>dict\<close> with string keys, as \<open>**kwargs\<close> requires.\<close>

type_synonym kwargs = "string \<rightharpoonup> py_value"

text \<open>
  An exception carries the text \<open>str(err)\<close> gives. \<open>IndentationError\<close> and
  \<open>TabError\<close> derive from \<open>SyntaxError\<close>; \<open>ModuleNotFoundError\<close> derives from
  \<open>ImportError\<close>, not the other way round. \<open>OtherException\<close> (class name, text) is
  an exception of any class that derives from neither \<open>ModuleNotFoundError\<close> nor
  \<open>SyntaxError\<close>.
\<close>

datatype py_exception =
    ModuleNotFoundError string
  | SyntaxError string
  | IndentationError string
  | TabError string
  | ImportError string
  | NameError string
  | OperationalException string
  | OtherException string string

fun exc_str :: "py_exception \<Rightarrow> string" where
  "exc_str (ModuleNotFoundError m) = m"
| "exc_str (SyntaxError m) = m"
| "exc_str (IndentationError m) = m"
| "exc_str (TabError m) = m"
| "exc_str (ImportError m) = m"
| "exc_str (NameError m) = m"
| "exc_str (OperationalException m) = m"
| "exc_str (OtherException k m) = m"

text \<open>What \<open>except (ModuleNotFoundError, SyntaxError)\<close> catches.\<close>

fun caught :: "py_exception \<Rightarrow> bool" where
  "caught (ModuleNotFoundError m) = True"
| "caught (SyntaxError m) = True"
| "caught (IndentationError m) = True"
| "caught (TabError m) = True"
| "caught (ImportError m) = False"
| "caught (NameError m) = False"
| "caught (OperationalException m) = False"
| "caught (OtherException k m) = False"

text \<open>An instance: the identity of its class and the attributes its constructor set.\<close>

datatype py_instance = Instance (inst_cls: nat) (inst_attrs: "string \<rightharpoonup> py_value")

text \<open>
  A class object: its identity (classes are compared by identity), its \<open>__name__\<close>, its
  \<open>__bases__\<close> and what calling it with keyword arguments does: it returns an instance or
  raises. A call \<open>obj(**kwargs)\<close> hands the callee the keys and values of \<open>kwargs\<close> in
  a mapping of its own.
\<close>

datatype py_class =
  PyClass (cls_id: nat) (cls_name: string) (cls_bases: "py_class list")
          (cls_init: "kwargs \<Rightarrow> py_exception + py_instance")

text \<open>A member of a module: a class, or an object that is not a class.\<close>

datatype py_object = ClassObj py_class | OtherObj py_value

text \<open>\<open>inspect.getmembers(module, inspect.isclass)\<close>: the members that are classes.\<close>

fun getmembers_isclass :: "(string \<times> py_object) list \<Rightarrow> (string \<times> py_class) list" where
  "getmembers_isclass [] = []"
| "getmembers_isclass ((name, ClassObj c) # ms) = (name, c) # getmembers_isclass ms"
| "getmembers_isclass ((name, OtherObj v) # ms) = getmembers_isclass ms"

text \<open>\<open>object_type in obj.__bases__\<close>: membership in the tuple of direct bases.\<close>

definition in_bases :: "py_class \<Rightarrow> py_class \<Rightarrow> bool" where
  "in_bases object_type obj = (cls_id object_type \<in> set (map cls_id (cls_bases obj)))"

text \<open>All ancestors of a class, to compare the direct check with a transitive one.\<close>

fun ancestors :: "py_class \<Rightarrow> nat list" where
  "ancestors (PyClass i n bs f) = concat (map (\<lambda>b. cls_id b # ancestors b) bs)"

subsection \<open>The environment: loaded modules and directories\<close>

text \<open>
  The module after \<open>spec.loader.exec_module(module)\<close>: \<open>mod_members\<close> is what
  \<open>inspect.getmembers(module)\<close> lists, as (name, object) pairs in the order it lists
  them, and \<open>mod_raised\<close> is the exception the execution ended with, if any. A module
  whose execution raised holds the members bound before the failing statement.
\<close>

record module_load =
  mod_members :: "(string \<times> py_object) list"
  mod_raised :: "py_exception option"

text \<open>
  An entry of \<open>directory.iterdir()\<close>: \<open>entry_str\<close> is \<open>str(entry)\<close> and
  \<open>entry_module_path\<close> is \<open>str(Path.resolve(directory.joinpath(entry)))\<close>.
\<close>

record dir_entry =
  entry_str :: string
  entry_module_path :: string

record directory =
  dir_str :: string
  dir_iterdir :: "dir_entry list"

datatype event =
    LogDebug string
  | LogWarning string
  | ExecModule string
  | Instantiate nat kwargs

fun is_Instantiate :: "event \<Rightarrow> bool" where
  "is_Instantiate (Instantiate i kw) = True"
| "is_Instantiate (LogDebug m) = False"
| "is_Instantiate (LogWarning m) = False"
| "is_Instantiate (ExecModule p) = False"

subsection \<open>Strings\<close>

definition endswith :: "string \<Rightarrow> string \<Rightarrow> bool" where
  "endswith s suffix = (take (length suffix) (rev s) = rev suffix)"

definition hex_digit :: "nat \<Rightarrow> char" where
  "hex_digit n = ''0123456789abcdef'' ! (n mod 16)"

text \<open>
  \<open>repr\<close> of a \<open>str\<close>: double quotes when the string has a single quote and no double
  quote, single quotes otherwise; the backslash, the chosen quote and the control
  characters are escaped. Characters are bytes here, and bytes from 128 on are kept.
\<close>

definition repr_char :: "char \<Rightarrow> char \<Rightarrow> string" where
  "repr_char q c =
     (if c = CHR 0x5C then [CHR 0x5C, CHR 0x5C]
      else if c = q then [CHR 0x5C, q]
      else if c = CHR 0x09 then [CHR 0x5C, CHR ''t'']
      else if c = CHR 0x0A then [CHR 0x5C, CHR ''n'']
      else if c = CHR 0x0D then [CHR 0x5C, CHR ''r'']
      else if of_char c < (32::nat) \<or> of_char c = (127::nat)
        then [CHR 0x5C, CHR ''x'', hex_digit (of_char c div 16), hex_digit (of_char c)]
      else [c])"

definition repr_str :: "string \<Rightarrow> string" where
  "repr_str s =
     (let q = (if CHR 0x27 \<in> set s \<and> CHR 0x22 \<notin> set s then CHR 0x22 else CHR 0x27)
      in [q] @ concat (map (repr_char q) s) @ [q])"

fun join :: "string \<Rightarrow> string list \<Rightarrow> string" where
  "join sep [] = []"
| "join sep [x] = x"
| "join sep (x # y # ys) = x @ sep @ join sep (y # ys)"

text \<open>\<open>str\<close> of a list of strings, as an f-string formats it.\<close>

definition str_list :: "string list \<Rightarrow> string" where
  "str_list xs = ''['' @ join '', '' (map repr_str xs) @ '']''"

subsection \<open>\<open>IResolver._get_valid_object\<close>\<close>

text \<open>
  The module is executed; an exception that the \<open>except\<close> clause catches is logged as
  a warning and the function goes on, any other exception leaves the function. Then the
  class members of the module are filtered by name and direct base, and \<open>next\<close> takes
  the first one or \<open>None\<close>.
\<close>

definition valid_objects_gen ::
  "py_class \<Rightarrow> string \<Rightarrow> (string \<times> py_object) list \<Rightarrow> py_class list" where
  "valid_objects_gen object_type object_name members =
     map snd (filter (\<lambda>(name, obj). object_name = name \<and> in_bases object_type obj)
                     (getmembers_isclass members))"

definition next_or_None :: "'a list \<Rightarrow> 'a option" where
  "next_or_None xs = (case xs of [] \<Rightarrow> None | x # _ \<Rightarrow> Some x)"

definition get_valid_object ::
  "(string \<Rightarrow> module_load) \<Rightarrow> py_class \<Rightarrow> string \<Rightarrow> string
     \<Rightarrow> (py_exception + py_class option) \<times> event list" where
  "get_valid_object loader object_type module_path object_name =
     (let m = loader module_path;
          found = next_or_None (valid_objects_gen object_type object_name (mod_members m))
      in case mod_raised m of
           None \<Rightarrow> (Inr found, [ExecModule module_path])
         | Some err \<Rightarrow>
             if caught err then
               (Inr found,
                [ExecModule module_path,
                 LogWarning (''Could not import '' @ module_path @ '' due to '' @
                             [CHR 0x27] @ exc_str err @ [CHR 0x27])])
             else (Inl err, [ExecModule module_path]))"

subsection \<open>\<open>IResolver._search_object\<close>\<close>

text \<open>
  The loop over \<open>directory.iterdir()\<close>, with the list \<open>objs\<close> it appends to. An
  exception that leaves \<open>_get_valid_object\<close> leaves the loop. A class object is true in
  \<open>if obj:\<close>.
\<close>

fun search_object_loop ::
  "(string \<Rightarrow> module_load) \<Rightarrow> py_class \<Rightarrow> string \<Rightarrow> dir_entry list
     \<Rightarrow> (py_class \<times> string) list
     \<Rightarrow> (py_exception + (py_class \<times> string) list) \<times> event list" where
  "search_object_loop loader object_type object_name [] objs = (Inr objs, [])"
| "search_object_loop loader object_type object_name (entry # rest) objs =
     (if \<not> endswith (entry_str entry) ''.py'' then
        (case search_object_loop loader object_type object_name rest objs of
           (r, t) \<Rightarrow> (r, LogDebug (''Ignoring '' @ entry_str entry) # t))
      else
        (case get_valid_object loader object_type (entry_module_path entry) object_name of
           (Inl err, t1) \<Rightarrow> (Inl err, t1)
         | (Inr None, t1) \<Rightarrow>
             (case search_object_loop loader object_type object_name rest objs of
                (r, t) \<Rightarrow> (r, t1 @ t))
         | (Inr (Some obj), t1) \<Rightarrow>
             (case search_object_loop loader object_type object_name rest
                     (objs @ [(obj, entry_module_path entry)]) of
                (r, t) \<Rightarrow> (r, t1 @ t))))"

text \<open>
  The result is \<open>Inl\<close> of the exception raised, \<open>Inr None\<close> for the pair
  \<open>(None, None)\<close>, or \<open>Inr (Some (instance, module_path))\<close>. \<open>type_name\<close> is the
  class attribute \<open>self.type_name\<close> of the resolver the method is called on.
\<close>

definition search_object ::
  "string \<Rightarrow> (string \<Rightarrow> module_load) \<Rightarrow> directory \<Rightarrow> py_class \<Rightarrow> string \<Rightarrow> kwargs
     \<Rightarrow> (py_exception + (py_instance \<times> string) option) \<times> event list" where
  "search_object type_name loader dir object_type object_name kwargs =
     (let t0 = [LogDebug (''Searching for '' @ cls_name object_type @ '' '' @ object_name @
                          '' in '' @ [CHR 0x27] @ dir_str dir @ [CHR 0x27])]
      in case search_object_loop loader object_type object_name (dir_iterdir dir) [] of
           (Inl err, t1) \<Rightarrow> (Inl err, t0 @ t1)
         | (Inr objs, t1) \<Rightarrow>
             if length objs = 0 then (Inr None, t0 @ t1)
             else if length objs = 1 then
               (case hd objs of
                  (obj, module_path) \<Rightarrow>
                    (case cls_init obj kwargs of
                       Inl err \<Rightarrow> (Inl err, t0 @ t1 @ [Instantiate (cls_id obj) kwargs])
                     | Inr inst \<Rightarrow>
                         (Inr (Some (inst, module_path)),
                          t0 @ t1 @ [Instantiate (cls_id obj) kwargs])))
             else
               (Inl (OperationalException
                  (''Cannot resolve object: found more than one objects of type `'' @
                   type_name @ ''` with name `'' @ object_name @ ''`. '' @
                   ''Use unique names for custom strategies, hyperopts and other custom objects '' @
                   ''so that Freqtrade can be able to resolve them. '' @
                   ''Found in modules: '' @ str_list (map snd objs))),
                t0 @ t1))"

subsection \<open>What a scan collects\<close>

text \<open>
  An entry makes the loop stop when it is a Python file whose execution raises an
  exception the \<open>except\<close> clause does not catch.
\<close>

definition aborts :: "(string \<Rightarrow> module_load) \<Rightarrow> dir_entry \<Rightarrow> bool" where
  "aborts loader entry =
     (endswith (entry_str entry) ''.py'' \<and>
      (case mod_raised (loader (entry_module_path entry)) of
         None \<Rightarrow> False | Some err \<Rightarrow> \<not> caught err))"

text \<open>
  The pairs an entry adds to \<open>objs\<close>, and the pairs of all entries of a directory in
  the order \<open>iterdir\<close> yields them.
\<close>

definition entry_matches ::
  "(string \<Rightarrow> module_load) \<Rightarrow> py_class \<Rightarrow> string \<Rightarrow> dir_entry \<Rightarrow> (py_class \<times> string) list" where
  "entry_matches loader object_type object_name entry =
     (if endswith (entry_str entry) ''.py'' then
        (case next_or_None (valid_objects_gen object_type object_name
                 (mod_members (loader (entry_module_path entry)))) of
           None \<Rightarrow> []
         | Some c \<Rightarrow> [(c, entry_module_path entry)])
      else [])"

definition candidates ::
  "(string \<Rightarrow> module_load) \<Rightarrow> py_class \<Rightarrow> string \<Rightarrow> dir_entry list \<Rightarrow> (py_class \<times> string) list" where
  "candidates loader object_type object_name entries =
     concat (map (entry_matches loader object_type object_name) entries)"

text \<open>The events of one round of the loop.\<close>

definition entry_events ::
  "(string \<Rightarrow> module_load) \<Rightarrow> py_class \<Rightarrow> string \<Rightarrow> dir_entry \<Rightarrow> event list" where
  "entry_events loader object_type object_name entry =
     (if endswith (entry_str entry) ''.py''
      then snd (get_valid_object loader object_type (entry_module_path entry) object_name)
      else [LogDebug (''Ignoring '' @ entry_str entry)])"

subsection \<open>The dictionary of keyword arguments as an object\<close>

text \<open>
  To say what a call does to the dictionary it is given, dictionaries are objects in a
  store: \<open>cells\<close> gives the items of the dictionary at each address and the addresses
  below \<open>next_addr\<close> are the ones in use. \<open>alloc\<close> creates a dictionary with given items.
\<close>

record dict_store =
  cells :: "nat \<Rightarrow> kwargs"
  next_addr :: nat

definition alloc :: "kwargs \<Rightarrow> dict_store \<Rightarrow> nat \<times> dict_store" where
  "alloc items h =
     (next_addr h, \<lparr>cells = (cells h)(next_addr h := items), next_addr = Suc (next_addr h)\<rparr>)"

text \<open>
  \<open>_search_object\<close> once more, with \<open>kwargs\<close> the address of a dictionary and the
  store passed through the body. The statements before the decision do not mention
  \<open>kwargs\<close>. The call \<open>obj(**kwargs)\<close> reads the items of \<open>kwargs\<close> and passes them as
  keyword arguments, which the callee receives in a dictionary of its own, created for the
  call; the constructor may store into that dictionary, and \<open>leaves obj items\<close> is what
  it holds when the constructor is done.
\<close>

definition search_object_store ::
  "(py_class \<Rightarrow> kwargs \<Rightarrow> kwargs) \<Rightarrow> string \<Rightarrow> (string \<Rightarrow> module_load) \<Rightarrow> directory
     \<Rightarrow> py_class \<Rightarrow> string \<Rightarrow> nat \<Rightarrow> dict_store
     \<Rightarrow> ((py_exception + (py_instance \<times> string) option) \<times> event list) \<times> dict_store" where
  "search_object_store leaves type_name loader dir object_type object_name kwargs h =
     (let t0 = [LogDebug (''Searching for '' @ cls_name object_type @ '' '' @ object_name @
                          '' in '' @ [CHR 0x27] @ dir_str dir @ [CHR 0x27])]
      in case search_object_loop loader object_type object_name (dir_iterdir dir) [] of
           (Inl err, t1) \<Rightarrow> ((Inl err, t0 @ t1), h)
         | (Inr objs, t1) \<Rightarrow>
             if length objs = 0 then ((Inr None, t0 @ t1), h)
             else if length objs = 1 then
               (case hd objs of
                  (obj, module_path) \<Rightarrow>
                    (case alloc (cells h kwargs) h of
                       (received, h1) \<Rightarrow>
                         (case cls_init obj (cells h1 received) of
                            Inl err \<Rightarrow>
                              ((Inl err,
                                t0 @ t1 @ [Instantiate (cls_id obj) (cells h1 received)]),
                               h1\<lparr>cells := (cells h1)
                                    (received := leaves obj (cells h1 received))\<rparr>)
                          | Inr inst \<Rightarrow>
                              ((Inr (Some (inst, module_path)),
                                t0 @ t1 @ [Instantiate (cls_id obj) (cells h1 received)]),
                               h1\<lparr>cells := (cells h1)
                                    (received := leaves obj (cells h1 received))\<rparr>))))
             else
               ((Inl (OperationalException
                  (''Cannot resolve object: found more than one objects of type `'' @
                   type_name @ ''` with name `'' @ object_name @ ''`. '' @
                   ''Use unique names for custom strategies, hyperopts and other custom objects '' @
                   ''so that Freqtrade can be able to resolve them. '' @
                   ''Found in modules: '' @ str_list (map snd objs))),
                 t0 @ t1), h))"

text \<open>
  \<open>kwargs: dict = {}\<close> creates one dictionary when the function is defined, at the
  address \<open>default_kwargs\<close>. A call that omits \<open>kwargs\<close> binds the parameter to that
  address, a call that passes a dictionary binds it to the address passed.
\<close>

definition call_search_object ::
  "(py_class \<Rightarrow> kwargs \<Rightarrow> kwargs) \<Rightarrow> nat \<Rightarrow> string \<Rightarrow> (string \<Rightarrow> module_load) \<Rightarrow> directory
     \<Rightarrow> py_class \<Rightarrow> string \<Rightarrow> nat option \<Rightarrow> dict_store
     \<Rightarrow> ((py_exception + (py_instance \<times> string) option) \<times> event list) \<times> dict_store" where
  "call_search_object leaves default_kwargs type_name loader dir object_type object_name passed h =
     search_object_store leaves type_name loader dir object_type object_name
       (case passed of None \<Rightarrow> default_kwargs | Some a \<Rightarrow> a) h"

text \<open>
  Successive calls on one store. A caller either omits \<open>kwargs\<close> or builds a dictionary
  with some items and passes it.
\<close>

fun call_sequence ::
  "(py_class \<Rightarrow> kwargs \<Rightarrow> kwargs) \<Rightarrow> nat \<Rightarrow> string \<Rightarrow> (string \<Rightarrow> module_load)
     \<Rightarrow> (directory \<times> py_class \<times> string \<times> kwargs option) list \<Rightarrow> dict_store
     \<Rightarrow> ((py_exception + (py_instance \<times> string) option) \<times> event list) list \<times> dict_store" where
  "call_sequence leaves default_kwargs type_name loader [] h = ([], h)"
| "call_sequence leaves default_kwargs type_name loader
      ((dir, object_type, object_name, given) # calls) h =
     (case (case given of
              None \<Rightarrow> (None, h)
            | Some items \<Rightarrow> (case alloc items h of (a, h') \<Rightarrow> (Some a, h'))) of
        (passed, h1) \<Rightarrow>
          (case call_search_object leaves default_kwargs type_name loader dir object_type
                  object_name passed h1 of
             (res, h2) \<Rightarrow>
               (case call_sequence leaves default_kwargs type_name loader calls h2 of
                  (results, h3) \<Rightarrow> (res # results, h3))))"

subsection \<open>A concrete environment\<close>

text \<open>
  A base class \<open>IStrategy\<close>, classes whose constructor records the keyword arguments
  it receives as attributes, a class whose constructor requires \<open>paramA\<close>, and a
  directory tree with files that load, that fail to load and that are not Python files.
\<close>

definition ex_record :: "nat \<Rightarrow> kwargs \<Rightarrow> py_exception + py_instance" where
  "ex_record i kw = Inr (Instance i kw)"

definition ex_IStrategy :: py_class where
  "ex_IStrategy = PyClass 1 ''IStrategy'' [] (ex_record 1)"

definition ex_MyStrat :: py_class where
  "ex_MyStrat = PyClass 2 ''MyStrat'' [ex_IStrategy] (ex_record 2)"

definition ex_MyStrat2 :: py_class where
  "ex_MyStrat2 = PyClass 3 ''MyStrat'' [ex_IStrategy] (ex_record 3)"

definition ex_Other :: py_class where
  "ex_Other = PyClass 4 ''Other'' [ex_IStrategy] (ex_record 4)"

definition ex_Deep :: py_class where
  "ex_Deep = PyClass 5 ''Deep'' [ex_MyStrat] (ex_record 5)"

definition ex_Strict :: py_class where
  "ex_Strict = PyClass 6 ''Strict'' [ex_IStrategy]
     (\<lambda>kw. case kw ''paramA'' of
              None \<Rightarrow> Inl (OtherException ''TypeError'' ''missing argument paramA'')
            | Some v \<Rightarrow> Inr (Instance 6 kw))"

text \<open>
  A class whose constructor raises an \<open>OperationalException\<close> with the text the search
  uses for two files that define \<open>MyStrat\<close>.
\<close>

definition ex_Mimic :: py_class where
  "ex_Mimic = PyClass 7 ''MyStrat'' [ex_IStrategy]
     (\<lambda>kw. Inl (OperationalException
        (''Cannot resolve object: found more than one objects of type `Strategy` with name `MyStrat`. '' @
         ''Use unique names for custom strategies, hyperopts and other custom objects '' @
         ''so that Freqtrade can be able to resolve them. '' @
         ''Found in modules: ['' @ [CHR 0x27] @ ''/s/foo.py'' @ [CHR 0x27] @ '', '' @
         [CHR 0x27] @ ''/s/dup.py'' @ [CHR 0x27] @ '']'')))"

text \<open>A constructor that adds an item to the dictionary of keyword arguments it received.\<close>

definition ex_leaves :: "py_class \<Rightarrow> kwargs \<Rightarrow> kwargs" where
  "ex_leaves c items = items(''seen'' \<mapsto> PyInt 1)"

definition ex_module :: "(string \<times> py_object) list \<Rightarrow> py_exception option \<Rightarrow> module_load" where
  "ex_module ms r = \<lparr>mod_members = ms, mod_raised = r\<rparr>"

definition ex_loader :: "string \<Rightarrow> module_load" where
  "ex_loader p =
     (if p = ''/s/foo.py'' then
        ex_module [(''IStrategy'', ClassObj ex_IStrategy), (''MyStrat'', ClassObj ex_MyStrat),
                   (''timeframe'', OtherObj (PyStr ''5m''))] None
      else if p = ''/s/bar.py'' then ex_module [(''Other'', ClassObj ex_Other)] None
      else if p = ''/s/dup.py'' then ex_module [(''MyStrat'', ClassObj ex_MyStrat2)] None
      else if p = ''/s/deep.py'' then ex_module [(''Deep'', ClassObj ex_Deep)] None
      else if p = ''/s/strict.py'' then ex_module [(''Strict'', ClassObj ex_Strict)] None
      else if p = ''/s/broken.py'' then
        ex_module [] (Some (SyntaxError ''invalid syntax (broken.py, line 1)''))
      else if p = ''/s/partial.py'' then
        ex_module [(''MyStrat'', ClassObj ex_MyStrat2)]
                  (Some (ModuleNotFoundError ''No module named talib''))
      else if p = ''/s/crash.py'' then
        ex_module [] (Some (NameError ''name x is not defined''))
      else if p = ''/t/dup.py'' then ex_module [(''MyStrat'', ClassObj ex_MyStrat2)] None
      else if p = ''/s/mimic.py'' then ex_module [(''MyStrat'', ClassObj ex_Mimic)] None
      else ex_module [] None)"

definition ex_entry :: "string \<Rightarrow> dir_entry" where
  "ex_entry p = \<lparr>entry_str = p, entry_module_path = p\<rparr>"

definition ex_dir :: "string list \<Rightarrow> directory" where
  "ex_dir ps = \<lparr>dir_str = ''/s'', dir_iterdir = map ex_entry ps\<rparr>"

text \<open>A second directory, for a search path of two directories.\<close>

definition ex_dir_t :: "string list \<Rightarrow> directory" where
  "ex_dir_t ps = \<lparr>dir_str = ''/t'', dir_iterdir = map ex_entry ps\<rparr>"

text \<open>
  The store when the function has been defined: the default dictionary, empty, at
  address 0.
\<close>

definition ex_store :: dict_store where
  "ex_store = \<lparr>cells = (\<lambda>a. Map.empty), next_addr = 1\<rparr>"

section \<open>Properties\<close>

subsection \<open>The loop\<close>

lemma candidates_Nil: "candidates loader ot nm [] = []"
  by (simp add: candidates_def)

lemma candidates_Cons:
  "candidates loader ot nm (e # es) = entry_matches loader ot nm e @ candidates loader ot nm es"
  by (simp add: candidates_def)

lemma candidates_append:
  "candidates loader ot nm (xs @ ys) = candidates loader ot nm xs @ candidates loader ot nm ys"
  by (simp add: candidates_def)

lemma get_valid_object_cases:
  "get_valid_object loader ot p nm =
     (case mod_raised (loader p) of
        None \<Rightarrow> (Inr (next_or_None (valid_objects_gen ot nm (mod_members (loader p)))), [ExecModule p])
      | Some err \<Rightarrow>
          if caught err then
            (Inr (next_or_None (valid_objects_gen ot nm (mod_members (loader p)))),
             [ExecModule p, LogWarning (''Could not import '' @ p @ '' due to '' @ [CHR 0x27] @ exc_str err @ [CHR 0x27])])
          else (Inl err, [ExecModule p]))"
  by (simp add: get_valid_object_def Let_def)

lemma get_valid_object_no_Instantiate:
  "filter is_Instantiate (snd (get_valid_object loader ot p nm)) = []"
  by (simp add: get_valid_object_cases split: option.splits)

lemma loop_Cons_fst:
  "fst (search_object_loop loader ot nm (e # es) objs) =
     (if \<not> endswith (entry_str e) ''.py'' then fst (search_object_loop loader ot nm es objs)
      else case fst (get_valid_object loader ot (entry_module_path e) nm) of
             Inl err \<Rightarrow> Inl err
           | Inr None \<Rightarrow> fst (search_object_loop loader ot nm es objs)
           | Inr (Some c) \<Rightarrow>
               fst (search_object_loop loader ot nm es (objs @ [(c, entry_module_path e)])))"
  by (simp split: prod.splits sum.splits option.splits)

lemma loop_Cons_snd:
  "snd (search_object_loop loader ot nm (e # es) objs) =
     (if \<not> endswith (entry_str e) ''.py''
      then LogDebug (''Ignoring '' @ entry_str e) # snd (search_object_loop loader ot nm es objs)
      else snd (get_valid_object loader ot (entry_module_path e) nm) @
           (case fst (get_valid_object loader ot (entry_module_path e) nm) of
              Inl err \<Rightarrow> []
            | Inr None \<Rightarrow> snd (search_object_loop loader ot nm es objs)
            | Inr (Some c) \<Rightarrow>
                snd (search_object_loop loader ot nm es (objs @ [(c, entry_module_path e)]))))"
  by (simp split: prod.splits sum.splits option.splits)

lemma get_valid_object_fst:
  "fst (get_valid_object loader ot p nm) =
     (case mod_raised (loader p) of
        None \<Rightarrow> Inr (next_or_None (valid_objects_gen ot nm (mod_members (loader p))))
      | Some err \<Rightarrow>
          if caught err
          then Inr (next_or_None (valid_objects_gen ot nm (mod_members (loader p))))
          else Inl err)"
  by (simp add: get_valid_object_cases split: option.splits)

lemma loop_no_Instantiate:
  "filter is_Instantiate (snd (search_object_loop loader ot nm es objs)) = []"
proof (induction es arbitrary: objs)
  case Nil
  show ?case by simp
next
  case (Cons e es)
  show ?case
    by (simp only: loop_Cons_snd)
       (simp add: Cons.IH get_valid_object_no_Instantiate split: sum.splits option.splits)
qed

lemma loop_complete:
  "\<forall>e \<in> set es. \<not> aborts loader e \<Longrightarrow>
   fst (search_object_loop loader ot nm es objs) = Inr (objs @ candidates loader ot nm es)"
proof (induction es arbitrary: objs)
  case Nil
  show ?case by (simp add: candidates_Nil)
next
  case (Cons e es)
  have rest: "\<forall>x \<in> set es. \<not> aborts loader x" using Cons.prems by simp
  have here: "\<not> aborts loader e" using Cons.prems by simp
  show ?case
    using here
    by (simp only: loop_Cons_fst)
       (auto simp: Cons.IH [OF rest] candidates_Cons entry_matches_def aborts_def
                   get_valid_object_fst split: option.splits)
qed

lemma loop_Inr_no_abort:
  "fst (search_object_loop loader ot nm es objs) = Inr res \<Longrightarrow> \<forall>e \<in> set es. \<not> aborts loader e"
proof (induction es arbitrary: objs)
  case Nil
  show ?case by simp
next
  case (Cons e es)
  have here: "\<not> aborts loader e"
    using Cons.prems
    by (simp only: loop_Cons_fst)
       (auto simp: aborts_def get_valid_object_fst split: option.splits if_splits)
  have "\<exists>objs'. fst (search_object_loop loader ot nm es objs') = Inr res"
    using Cons.prems
    by (simp only: loop_Cons_fst)
       (auto split: option.splits if_splits sum.splits)
  then have "\<forall>x \<in> set es. \<not> aborts loader x"
    using Cons.IH by blast
  with here show ?case by simp
qed

lemma loop_Inr_candidates:
  "fst (search_object_loop loader ot nm es objs) = Inr res \<Longrightarrow>
   res = objs @ candidates loader ot nm es"
  using loop_complete [OF loop_Inr_no_abort, of loader ot nm es objs res] by simp


subsection \<open>The search\<close>

lemma search_object_fst:
  "fst (search_object tn loader d ot nm kw) =
     (case fst (search_object_loop loader ot nm (dir_iterdir d) []) of
        Inl err \<Rightarrow> Inl err
      | Inr objs \<Rightarrow>
          if length objs = 0 then Inr None
          else if length objs = 1 then
            (case cls_init (fst (hd objs)) kw of
               Inl err \<Rightarrow> Inl err
             | Inr inst \<Rightarrow> Inr (Some (inst, snd (hd objs))))
          else Inl (OperationalException
                 (''Cannot resolve object: found more than one objects of type `'' @
                  tn @ ''` with name `'' @ nm @ ''`. '' @
                  ''Use unique names for custom strategies, hyperopts and other custom objects '' @
                  ''so that Freqtrade can be able to resolve them. '' @
                  ''Found in modules: '' @ str_list (map snd objs))))"
  by (simp add: search_object_def Let_def split: prod.splits sum.splits)

lemma search_object_Instantiate:
  "filter is_Instantiate (snd (search_object tn loader d ot nm kw)) =
     (case fst (search_object_loop loader ot nm (dir_iterdir d) []) of
        Inl err \<Rightarrow> []
      | Inr objs \<Rightarrow>
          if length objs = 1 then [Instantiate (cls_id (fst (hd objs))) kw] else [])"
proof -
  obtain r t where l: "search_object_loop loader ot nm (dir_iterdir d) [] = (r, t)"
    by (cases "search_object_loop loader ot nm (dir_iterdir d) []")
  have t: "filter is_Instantiate t = []"
    using loop_no_Instantiate [of loader ot nm "dir_iterdir d" "[]"] l by simp
  show ?thesis
    using l t by (simp add: search_object_def Let_def split: prod.splits sum.splits)
qed

lemma loop_trace:
  "\<forall>e \<in> set es. \<not> aborts loader e \<Longrightarrow>
   snd (search_object_loop loader ot nm es objs) = concat (map (entry_events loader ot nm) es)"
proof (induction es arbitrary: objs)
  case Nil
  show ?case by simp
next
  case (Cons e es)
  have rest: "\<forall>x \<in> set es. \<not> aborts loader x" using Cons.prems by simp
  have here: "\<not> aborts loader e" using Cons.prems by simp
  show ?case
    using here
    by (simp only: loop_Cons_snd)
       (auto simp: Cons.IH [OF rest] entry_events_def aborts_def get_valid_object_fst
             split: option.splits)
qed

lemma search_object_snd:
  "snd (search_object tn loader d ot nm kw) =
     LogDebug (''Searching for '' @ cls_name ot @ '' '' @ nm @ '' in '' @ [CHR 0x27] @ dir_str d @ [CHR 0x27]) #
     snd (search_object_loop loader ot nm (dir_iterdir d) []) @
     filter is_Instantiate (snd (search_object tn loader d ot nm kw))"
proof -
  obtain r t where l: "search_object_loop loader ot nm (dir_iterdir d) [] = (r, t)"
    by (cases "search_object_loop loader ot nm (dir_iterdir d) []")
  have t: "filter is_Instantiate t = []"
    using loop_no_Instantiate [of loader ot nm "dir_iterdir d" "[]"] l by simp
  show ?thesis
    using l t by (simp add: search_object_def Let_def split: prod.splits sum.splits)
qed

lemma loop_trace_member:
  assumes "\<forall>x \<in> set es. \<not> aborts loader x" and "e \<in> set es"
    and "ev \<in> set (entry_events loader ot nm e)"
  shows "ev \<in> set (snd (search_object_loop loader ot nm es objs))"
  using assms by (auto simp: loop_trace)

lemma search_object_trace_member:
  assumes "\<forall>x \<in> set (dir_iterdir d). \<not> aborts loader x" and "e \<in> set (dir_iterdir d)"
    and "ev \<in> set (entry_events loader ot nm e)"
  shows "ev \<in> set (snd (search_object tn loader d ot nm kw))"
proof -
  have "ev \<in> set (snd (search_object_loop loader ot nm (dir_iterdir d) []))"
    using loop_trace_member [OF assms] .
  then show ?thesis
    by (subst search_object_snd) simp
qed

lemma caught_not_aborts:
  "mod_raised (loader (entry_module_path e)) = Some err \<Longrightarrow> caught err \<Longrightarrow> \<not> aborts loader e"
  by (simp add: aborts_def)

lemma caught_entry_events:
  "endswith (entry_str e) ''.py'' \<Longrightarrow> mod_raised (loader (entry_module_path e)) = Some err \<Longrightarrow>
   caught err \<Longrightarrow>
   entry_events loader ot nm e =
     [ExecModule (entry_module_path e),
      LogWarning (''Could not import '' @ entry_module_path e @ '' due to '' @
                  [CHR 0x27] @ exc_str err @ [CHR 0x27])]"
  by (simp add: entry_events_def get_valid_object_cases)

lemma py_entry_ExecModule:
  "endswith (entry_str e) ''.py'' \<Longrightarrow>
   ExecModule (entry_module_path e) \<in> set (entry_events loader ot nm e)"
  by (simp add: entry_events_def get_valid_object_cases split: option.splits)

subsection \<open>The matcher\<close>

lemma valid_objects_gen_Nil: "valid_objects_gen ot nm [] = []"
  by (simp add: valid_objects_gen_def)

lemma valid_objects_gen_Cons:
  "valid_objects_gen ot nm ((n, obj) # ms) =
     (case obj of
        ClassObj c \<Rightarrow> (if nm = n \<and> in_bases ot c then [c] else [])
      | OtherObj v \<Rightarrow> []) @ valid_objects_gen ot nm ms"
  by (cases obj) (simp_all add: valid_objects_gen_def)

lemma valid_objects_gen_append:
  "valid_objects_gen ot nm (xs @ ys) = valid_objects_gen ot nm xs @ valid_objects_gen ot nm ys"
proof (induction xs)
  case Nil
  show ?case by (simp add: valid_objects_gen_Nil)
next
  case (Cons x xs)
  obtain n obj where x: "x = (n, obj)" by (cases x)
  show ?case
    using Cons.IH by (simp add: x valid_objects_gen_Cons)
qed

lemma valid_objects_gen_empty_iff:
  "valid_objects_gen ot nm ms = [] \<longleftrightarrow>
     (\<forall>c. (nm, ClassObj c) \<in> set ms \<longrightarrow> \<not> in_bases ot c)"
proof (induction ms)
  case Nil
  show ?case by (simp add: valid_objects_gen_Nil)
next
  case (Cons x ms)
  obtain n obj where x: "x = (n, obj)" by (cases x)
  show ?case
    using Cons.IH by (cases obj) (auto simp: x valid_objects_gen_Cons)
qed

lemma valid_objects_gen_first:
  "valid_objects_gen ot nm ms = c # cs \<Longrightarrow>
     \<exists>pre post. ms = pre @ (nm, ClassObj c) # post \<and> in_bases ot c \<and>
                valid_objects_gen ot nm pre = []"
proof (induction ms)
  case Nil
  then show ?case by (simp add: valid_objects_gen_Nil)
next
  case (Cons x ms)
  obtain n obj where x: "x = (n, obj)" by (cases x)
  show ?case
  proof (cases "valid_objects_gen ot nm [x] = []")
    case True
    then have "valid_objects_gen ot nm ms = c # cs"
      using Cons.prems valid_objects_gen_append [of ot nm "[x]" ms] by simp
    then obtain pre post where p: "ms = pre @ (nm, ClassObj c) # post" "in_bases ot c"
        "valid_objects_gen ot nm pre = []"
      using Cons.IH by blast
    have "valid_objects_gen ot nm (x # pre) = []"
      using True p(3) valid_objects_gen_append [of ot nm "[x]" pre] by simp
    moreover have "x # ms = (x # pre) @ (nm, ClassObj c) # post"
      using p(1) by simp
    ultimately show ?thesis using p(2) by blast
  next
    case False
    then obtain c' where o: "obj = ClassObj c'" "nm = n" "in_bases ot c'"
      by (cases obj) (auto simp: x valid_objects_gen_Cons valid_objects_gen_Nil split: if_splits)
    then have "c' = c"
      using Cons.prems by (simp add: x valid_objects_gen_Cons)
    then have "x # ms = [] @ (nm, ClassObj c) # ms"
      using o x by simp
    moreover have "valid_objects_gen ot nm [] = []"
      by (simp add: valid_objects_gen_Nil)
    ultimately show ?thesis using o \<open>c' = c\<close> by blast
  qed
qed

lemma valid_objects_gen_first_conv:
  "ms = pre @ (nm, ClassObj c) # post \<Longrightarrow> in_bases ot c \<Longrightarrow>
   valid_objects_gen ot nm pre = [] \<Longrightarrow>
   valid_objects_gen ot nm ms = c # valid_objects_gen ot nm post"
  using valid_objects_gen_append [of ot nm pre "(nm, ClassObj c) # post"]
  by (simp add: valid_objects_gen_Cons)

lemma next_or_None_Some: "next_or_None xs = Some x \<longleftrightarrow> (\<exists>ys. xs = x # ys)"
  by (cases xs) (auto simp: next_or_None_def)

lemma next_or_None_None: "next_or_None xs = None \<longleftrightarrow> xs = []"
  by (cases xs) (auto simp: next_or_None_def)

lemma get_valid_object_Inr:
  "fst (get_valid_object loader ot p nm) = Inr r \<Longrightarrow>
   r = next_or_None (valid_objects_gen ot nm (mod_members (loader p)))"
  by (auto simp: get_valid_object_fst split: option.splits if_splits)

subsection \<open>Scans that an exception ends\<close>

lemma loop_append:
  "search_object_loop loader ot nm (xs @ ys) objs =
     (case search_object_loop loader ot nm xs objs of
        (Inl err, t1) \<Rightarrow> (Inl err, t1)
      | (Inr objs1, t1) \<Rightarrow>
          (case search_object_loop loader ot nm ys objs1 of (r, t2) \<Rightarrow> (r, t1 @ t2)))"
proof (induction xs arbitrary: objs)
  case Nil
  show ?case by (simp split: prod.splits)
next
  case (Cons x xs)
  show ?case
    by (simp add: Cons.IH split: prod.splits sum.splits option.splits)
qed

lemma loop_no_abort:
  assumes "\<forall>x \<in> set es. \<not> aborts loader x"
  shows "search_object_loop loader ot nm es objs =
           (Inr (objs @ candidates loader ot nm es), concat (map (entry_events loader ot nm) es))"
  using loop_complete [OF assms, of ot nm objs] loop_trace [OF assms, of ot nm objs]
  by (simp add: prod_eq_iff)

lemma loop_abort_head:
  assumes "aborts loader e" and "mod_raised (loader (entry_module_path e)) = Some err"
  shows "search_object_loop loader ot nm (e # es) objs = (Inl err, [ExecModule (entry_module_path e)])"
  using assms by (simp add: aborts_def get_valid_object_cases)

lemma loop_first_abort:
  assumes "\<forall>x \<in> set pre. \<not> aborts loader x" and "aborts loader e"
    and "mod_raised (loader (entry_module_path e)) = Some err"
  shows "search_object_loop loader ot nm (pre @ e # rest) objs =
           (Inl err, concat (map (entry_events loader ot nm) pre) @
                     [ExecModule (entry_module_path e)])"
  by (simp add: loop_append loop_no_abort [OF assms(1)] loop_abort_head [OF assms(2,3)]
           del: search_object_loop.simps)

lemma loop_caught_head:
  assumes "endswith (entry_str bad) ''.py''"
    and "mod_raised (loader (entry_module_path bad)) = Some err" and "caught err"
  shows "search_object_loop loader ot nm (bad # es) objs =
           (case search_object_loop loader ot nm es (objs @ entry_matches loader ot nm bad) of
              (r, t) \<Rightarrow>
                (r, [ExecModule (entry_module_path bad),
                     LogWarning (''Could not import '' @ entry_module_path bad @ '' due to '' @
                                 [CHR 0x27] @ exc_str err @ [CHR 0x27])] @ t))"
  using assms
  by (simp add: get_valid_object_cases entry_matches_def split: prod.splits option.splits)

lemma loop_prefix_exec:
  assumes "\<forall>x \<in> set pre. \<not> aborts loader x" and "endswith (entry_str e) ''.py''"
  shows "ExecModule (entry_module_path e)
           \<in> set (snd (search_object_loop loader ot nm (pre @ e # rest) objs))"
proof -
  have h: "ExecModule (entry_module_path e)
             \<in> set (snd (search_object_loop loader ot nm (e # rest) objs'))" for objs'
    using py_entry_ExecModule [OF assms(2), of loader ot nm] assms(2)
    by (simp only: loop_Cons_snd) (simp add: entry_events_def)
  show ?thesis
    using h [of "objs @ candidates loader ot nm pre"]
    by (auto simp add: loop_append loop_no_abort [OF assms(1)] split: prod.splits
             simp del: search_object_loop.simps)
qed

lemma loop_prefix_event:
  assumes "\<forall>x \<in> set pre. \<not> aborts loader x"
    and "ev \<in> set (snd (search_object_loop loader ot nm es (objs @ candidates loader ot nm pre)))"
  shows "ev \<in> set (snd (search_object_loop loader ot nm (pre @ es) objs))"
  using assms(2)
  by (auto simp add: loop_append loop_no_abort [OF assms(1)] split: prod.splits
           simp del: search_object_loop.simps)

lemma search_object_loop_raises:
  "search_object_loop loader ot nm (dir_iterdir d) [] = (Inl err, t) \<Longrightarrow>
   search_object tn loader d ot nm kw =
     (Inl err,
      LogDebug (''Searching for '' @ cls_name ot @ '' '' @ nm @ '' in '' @ [CHR 0x27] @
                dir_str d @ [CHR 0x27]) # t)"
  by (simp add: search_object_def)

lemma search_object_trace_loop:
  "ev \<in> set (snd (search_object_loop loader ot nm (dir_iterdir d) [])) \<Longrightarrow>
   ev \<in> set (snd (search_object tn loader d ot nm kw))"
  by (subst search_object_snd) simp

subsection \<open>Calls on a store of dictionaries\<close>

lemma search_object_store_result:
  "fst (search_object_store leaves tn loader d ot nm a h) =
     search_object tn loader d ot nm (cells h a)"
  by (simp add: search_object_store_def search_object_def alloc_def Let_def
           split: prod.splits sum.splits)

lemma search_object_store_frame:
  assumes "b < next_addr h"
  shows "cells (snd (search_object_store leaves tn loader d ot nm a h)) b = cells h b"
  using assms
  by (simp add: search_object_store_def alloc_def Let_def split: prod.splits sum.splits)

lemma search_object_store_next:
  "next_addr h \<le> next_addr (snd (search_object_store leaves tn loader d ot nm a h))"
  by (simp add: search_object_store_def alloc_def Let_def split: prod.splits sum.splits)

lemma call_sequence_frame:
  assumes "dflt < next_addr h" and "cells h dflt = Map.empty"
  shows "fst (call_sequence leaves dflt tn loader calls h) =
           map (\<lambda>(d, ot, nm, given).
                  search_object tn loader d ot nm
                    (case given of None \<Rightarrow> Map.empty | Some items \<Rightarrow> items)) calls \<and>
         cells (snd (call_sequence leaves dflt tn loader calls h)) dflt = Map.empty \<and>
         (\<forall>b < next_addr h. cells (snd (call_sequence leaves dflt tn loader calls h)) b = cells h b)"
  using assms
proof (induction calls arbitrary: h)
  case Nil
  then show ?case by simp
next
  case (Cons call calls)
  obtain d ot nm given where c: "call = (d, ot, nm, given)"
    by (cases call) auto
  define ph where "ph = (case given of
              None \<Rightarrow> (None, h)
            | Some items \<Rightarrow> (case alloc items h of (a, h') \<Rightarrow> (Some a, h')))"
  obtain passed h1 where ph1: "ph = (passed, h1)"
    by (cases ph)
  define a where "a = (case passed of None \<Rightarrow> dflt | Some x \<Rightarrow> x)"
  have h1: "next_addr h \<le> next_addr h1" "\<forall>b < next_addr h. cells h1 b = cells h b"
      "cells h1 a = (case given of None \<Rightarrow> Map.empty | Some items \<Rightarrow> items)"
    using ph1 Cons.prems
    by (auto simp: ph_def a_def alloc_def split: option.splits)
  obtain res h2 where rh2: "search_object_store leaves tn loader d ot nm a h1 = (res, h2)"
    by (cases "search_object_store leaves tn loader d ot nm a h1")
  have res: "res = search_object tn loader d ot nm
                     (case given of None \<Rightarrow> Map.empty | Some items \<Rightarrow> items)"
    using search_object_store_result [of leaves tn loader d ot nm a h1]
    by (simp add: rh2 h1(3))
  have h2: "next_addr h1 \<le> next_addr h2" "\<forall>b < next_addr h1. cells h2 b = cells h1 b"
    using search_object_store_next [of h1 leaves tn loader d ot nm a]
          search_object_store_frame [of _ h1 leaves tn loader d ot nm a]
    by (simp_all add: rh2)
  have d2: "dflt < next_addr h2" "cells h2 dflt = Map.empty"
    using Cons.prems h1 h2 by auto
  note ih = Cons.IH [OF d2]
  have step: "call_sequence leaves dflt tn loader ((d, ot, nm, given) # calls) h =
          (res # fst (call_sequence leaves dflt tn loader calls h2),
           snd (call_sequence leaves dflt tn loader calls h2))"
    using ph1 rh2
    by (simp add: ph_def [symmetric] call_search_object_def a_def [symmetric]
             split: prod.splits)
  have frame: "\<forall>b < next_addr h. cells (snd (call_sequence leaves dflt tn loader calls h2)) b
                 = cells h b"
    using ih h1 h2 by auto
  show ?case
    unfolding c step using ih res frame by simp
qed

subsection \<open>Evaluating the concrete environment\<close>

lemmas ex_defs =
  ex_record_def ex_IStrategy_def ex_MyStrat_def ex_MyStrat2_def ex_Other_def ex_Deep_def
  ex_Strict_def ex_Mimic_def ex_module_def ex_loader_def ex_entry_def ex_dir_def ex_dir_t_def

lemmas eval_defs =
  get_valid_object_def valid_objects_gen_def next_or_None_def in_bases_def endswith_def

lemmas run_defs =
  search_object_def get_valid_object_def valid_objects_gen_def next_or_None_def
  in_bases_def endswith_def aborts_def candidates_def entry_matches_def entry_events_def

section \<open>The claims\<close>

subsection \<open>The three outcomes of a search\<close>



text \<open>
  Claim C5. When the loop ends with exactly one pair (class, module path) and the
  constructor of the class returns an instance for the keyword arguments supplied, the
  search returns that instance with the module path. The constructor is called once, with
  the mapping the caller supplied.
\<close>

theorem search_object_unique:
  assumes "fst (search_object_loop loader ot nm (dir_iterdir d) []) = Inr [(c, p)]"
    and "cls_init c kw = Inr inst"
  shows "fst (search_object tn loader d ot nm kw) = Inr (Some (inst, p)) \<and>
         filter is_Instantiate (snd (search_object tn loader d ot nm kw)) =
           [Instantiate (cls_id c) kw]"
  using assms by (simp add: search_object_fst search_object_Instantiate)

text \<open>
  A constructor that records its keyword arguments sees \<open>paramA\<close> as \<open>5\<close>.
\<close>

theorem search_object_unique_witness:
  "fst (search_object_loop ex_loader ex_IStrategy ''MyStrat''
          (dir_iterdir (ex_dir [''/s/bar.py'', ''/s/foo.py''])) [])
     = Inr [(ex_MyStrat, ''/s/foo.py'')] \<and>
   cls_init ex_MyStrat [''paramA'' \<mapsto> PyInt 5] = Inr (Instance 2 [''paramA'' \<mapsto> PyInt 5]) \<and>
   fst (search_object ''Strategy'' ex_loader (ex_dir [''/s/bar.py'', ''/s/foo.py''])
          ex_IStrategy ''MyStrat'' [''paramA'' \<mapsto> PyInt 5])
     = Inr (Some (Instance 2 [''paramA'' \<mapsto> PyInt 5], ''/s/foo.py'')) \<and>
   inst_attrs (Instance 2 [''paramA'' \<mapsto> PyInt 5]) ''paramA'' = Some (PyInt 5)"
  using search_object_unique [of ex_loader ex_IStrategy "''MyStrat''"
          "ex_dir [''/s/bar.py'', ''/s/foo.py'']" ex_MyStrat "''/s/foo.py''"
          "[''paramA'' \<mapsto> PyInt 5]" "Instance 2 [''paramA'' \<mapsto> PyInt 5]" "''Strategy''"]
  by (simp add: ex_defs get_valid_object_def valid_objects_gen_def next_or_None_def
                in_bases_def endswith_def)

text \<open>
  Claim C1. When the loop over the directory ends with two or more pairs in \<open>objs\<close>,
  the search raises an \<open>OperationalException\<close> whose message holds the type name of
  the resolver, the requested name and the list of the module paths of all matching files,
  in the order the directory listing gave them; no constructor is called.
\<close>

theorem search_object_ambiguous:
  assumes "fst (search_object_loop loader ot nm (dir_iterdir d) []) = Inr objs"
    and "2 \<le> length objs"
  shows "fst (search_object tn loader d ot nm kw) =
           Inl (OperationalException
             (''Cannot resolve object: found more than one objects of type `'' @ tn @
              ''` with name `'' @ nm @
              ''`. Use unique names for custom strategies, hyperopts and other custom objects so that Freqtrade can be able to resolve them. Found in modules: '' @
              str_list (map snd (candidates loader ot nm (dir_iterdir d))))) \<and>
         objs = candidates loader ot nm (dir_iterdir d) \<and>
         filter is_Instantiate (snd (search_object tn loader d ot nm kw)) = []"
proof -
  have c: "objs = candidates loader ot nm (dir_iterdir d)"
    using loop_Inr_candidates [OF assms(1)] by simp
  have n: "length objs \<noteq> 0" "length objs \<noteq> 1"
    using assms(2) by auto
  have r: "fst (search_object tn loader d ot nm kw) =
           Inl (OperationalException
             (''Cannot resolve object: found more than one objects of type `'' @ tn @
              ''` with name `'' @ nm @
              ''`. Use unique names for custom strategies, hyperopts and other custom objects so that Freqtrade can be able to resolve them. Found in modules: '' @
              str_list (map snd objs)))"
    unfolding search_object_fst assms(1) using n by simp
  have i: "filter is_Instantiate (snd (search_object tn loader d ot nm kw)) = []"
    unfolding search_object_Instantiate assms(1) using n by simp
  show ?thesis
    using r i c by simp
qed

text \<open>
  Two files define \<open>MyStrat(IStrategy)\<close>; a third file and a text file lie between them.
\<close>

theorem search_object_ambiguous_witness:
  "fst (search_object_loop ex_loader ex_IStrategy ''MyStrat''
          (dir_iterdir (ex_dir [''/s/foo.py'', ''/s/bar.py'', ''/s/notes.txt'', ''/s/dup.py''])) [])
     = Inr [(ex_MyStrat, ''/s/foo.py''), (ex_MyStrat2, ''/s/dup.py'')] \<and>
   fst (search_object ''Strategy'' ex_loader
          (ex_dir [''/s/foo.py'', ''/s/bar.py'', ''/s/notes.txt'', ''/s/dup.py''])
          ex_IStrategy ''MyStrat'' Map.empty)
     = Inl (OperationalException
         ''Cannot resolve object: found more than one objects of type `Strategy` with name `MyStrat`. Use unique names for custom strategies, hyperopts and other custom objects so that Freqtrade can be able to resolve them. Found in modules: ['/s/foo.py', '/s/dup.py']'') \<and>
   filter is_Instantiate (snd (search_object ''Strategy'' ex_loader
          (ex_dir [''/s/foo.py'', ''/s/bar.py'', ''/s/notes.txt'', ''/s/dup.py''])
          ex_IStrategy ''MyStrat'' Map.empty)) = []"
proof -
  have l: "fst (search_object_loop ex_loader ex_IStrategy ''MyStrat''
          (dir_iterdir (ex_dir [''/s/foo.py'', ''/s/bar.py'', ''/s/notes.txt'', ''/s/dup.py''])) [])
     = Inr [(ex_MyStrat, ''/s/foo.py''), (ex_MyStrat2, ''/s/dup.py'')]"
    by (simp add: ex_defs eval_defs)
  have n: "2 \<le> length [(ex_MyStrat, ''/s/foo.py''), (ex_MyStrat2, ''/s/dup.py'')]"
    by simp
  have c: "str_list (map snd (candidates ex_loader ex_IStrategy ''MyStrat''
          (dir_iterdir (ex_dir [''/s/foo.py'', ''/s/bar.py'', ''/s/notes.txt'', ''/s/dup.py'']))))
     = ''['/s/foo.py', '/s/dup.py']''"
    by (simp add: ex_defs eval_defs candidates_def entry_matches_def str_list_def repr_str_def
                  repr_char_def Let_def)
  show ?thesis
    using l search_object_ambiguous [OF l n, of "''Strategy''" Map.empty]
    by (simp only: c) simp
qed

text \<open>
  Claim C7. A constructor is called only when the loop ended with exactly one pair, and
  then once: it is not called when \<open>objs\<close> has no element or several, nor when the
  loop was left by an exception.
\<close>

theorem instantiate_only_when_unique:
  "(filter is_Instantiate (snd (search_object tn loader d ot nm kw)) \<noteq> [] \<longrightarrow>
      (\<exists>c p. fst (search_object_loop loader ot nm (dir_iterdir d) []) = Inr [(c, p)] \<and>
             filter is_Instantiate (snd (search_object tn loader d ot nm kw)) =
               [Instantiate (cls_id c) kw])) \<and>
   (fst (search_object_loop loader ot nm (dir_iterdir d) []) = Inr objs \<and> length objs \<noteq> 1 \<longrightarrow>
      filter is_Instantiate (snd (search_object tn loader d ot nm kw)) = []) \<and>
   (fst (search_object_loop loader ot nm (dir_iterdir d) []) = Inl err \<longrightarrow>
      filter is_Instantiate (snd (search_object tn loader d ot nm kw)) = [])"
proof (intro conjI impI)
  assume ne: "filter is_Instantiate (snd (search_object tn loader d ot nm kw)) \<noteq> []"
  then obtain xs where xs: "fst (search_object_loop loader ot nm (dir_iterdir d) []) = Inr xs"
    and one: "length xs = 1"
    by (auto simp: search_object_Instantiate split: sum.splits if_splits)
  from one obtain c p where "xs = [(c, p)]"
    by (cases xs) auto
  with xs show "\<exists>c p. fst (search_object_loop loader ot nm (dir_iterdir d) []) = Inr [(c, p)] \<and>
      filter is_Instantiate (snd (search_object tn loader d ot nm kw)) = [Instantiate (cls_id c) kw]"
    by (simp add: search_object_Instantiate)
next
  assume "fst (search_object_loop loader ot nm (dir_iterdir d) []) = Inr objs \<and> length objs \<noteq> 1"
  then show "filter is_Instantiate (snd (search_object tn loader d ot nm kw)) = []"
    by (simp add: search_object_Instantiate)
next
  assume "fst (search_object_loop loader ot nm (dir_iterdir d) []) = Inl err"
  then show "filter is_Instantiate (snd (search_object tn loader d ot nm kw)) = []"
    by (simp add: search_object_Instantiate)
qed

text \<open>
  One match, two matches, no match, and a scan that a \<open>NameError\<close> ends.
\<close>

theorem instantiate_only_when_unique_witness:
  "filter is_Instantiate (snd (search_object ''Strategy'' ex_loader
       (ex_dir [''/s/foo.py'', ''/s/bar.py'']) ex_IStrategy ''MyStrat'' Map.empty))
     = [Instantiate 2 Map.empty] \<and>
   fst (search_object_loop ex_loader ex_IStrategy ''MyStrat''
          (dir_iterdir (ex_dir [''/s/foo.py'', ''/s/dup.py''])) [])
     = Inr [(ex_MyStrat, ''/s/foo.py''), (ex_MyStrat2, ''/s/dup.py'')] \<and>
   filter is_Instantiate (snd (search_object ''Strategy'' ex_loader
       (ex_dir [''/s/foo.py'', ''/s/dup.py'']) ex_IStrategy ''MyStrat'' Map.empty)) = [] \<and>
   fst (search_object_loop ex_loader ex_IStrategy ''MyStrat''
          (dir_iterdir (ex_dir [''/s/bar.py''])) []) = Inr [] \<and>
   filter is_Instantiate (snd (search_object ''Strategy'' ex_loader
       (ex_dir [''/s/bar.py'']) ex_IStrategy ''MyStrat'' Map.empty)) = [] \<and>
   fst (search_object_loop ex_loader ex_IStrategy ''MyStrat''
          (dir_iterdir (ex_dir [''/s/foo.py'', ''/s/crash.py''])) [])
     = Inl (NameError ''name x is not defined'') \<and>
   filter is_Instantiate (snd (search_object ''Strategy'' ex_loader
       (ex_dir [''/s/foo.py'', ''/s/crash.py'']) ex_IStrategy ''MyStrat'' Map.empty)) = []"
  using instantiate_only_when_unique [of "''Strategy''" ex_loader
          "ex_dir [''/s/foo.py'', ''/s/bar.py'']" ex_IStrategy "''MyStrat''" Map.empty]
        instantiate_only_when_unique [of "''Strategy''" ex_loader
          "ex_dir [''/s/foo.py'', ''/s/dup.py'']" ex_IStrategy "''MyStrat''" Map.empty
          "[(ex_MyStrat, ''/s/foo.py''), (ex_MyStrat2, ''/s/dup.py'')]"]
        instantiate_only_when_unique [of "''Strategy''" ex_loader
          "ex_dir [''/s/bar.py'']" ex_IStrategy "''MyStrat''" Map.empty "[]"]
        instantiate_only_when_unique [of "''Strategy''" ex_loader
          "ex_dir [''/s/foo.py'', ''/s/crash.py'']" ex_IStrategy "''MyStrat''" Map.empty _
          "NameError ''name x is not defined''"]
  by (simp add: ex_defs eval_defs search_object_def)

text \<open>
  Claim C8 says that the failure of the constructor of the only matching class reaches the
  caller as it is and can be told from the error for several matches. The first holds,
  the second does not hold of every constructor: the constructor of the class in
  \<open>mimic.py\<close> raises an \<open>OperationalException\<close> with the text of that error, and the
  caller gets from the directory with this one file exactly what it gets from a directory
  where two files define \<open>MyStrat\<close>.
\<close>

theorem constructor_failure_counterexample:
  "fst (search_object_loop ex_loader ex_IStrategy ''MyStrat''
          (dir_iterdir (ex_dir [''/s/mimic.py''])) []) = Inr [(ex_Mimic, ''/s/mimic.py'')] \<and>
   (\<exists>msg. cls_init ex_Mimic Map.empty = Inl (OperationalException msg)) \<and>
   length (candidates ex_loader ex_IStrategy ''MyStrat''
             (dir_iterdir (ex_dir [''/s/foo.py'', ''/s/dup.py'']))) = 2 \<and>
   fst (search_object ''Strategy'' ex_loader (ex_dir [''/s/mimic.py''])
          ex_IStrategy ''MyStrat'' Map.empty)
     = fst (search_object ''Strategy'' ex_loader (ex_dir [''/s/foo.py'', ''/s/dup.py''])
          ex_IStrategy ''MyStrat'' Map.empty)"
  by (simp add: ex_defs eval_defs search_object_def candidates_def entry_matches_def
                str_list_def repr_str_def repr_char_def Let_def)

text \<open>
  Claim C8, amended. When the constructor of the only matching class raises, the search
  raises that very exception, after one call of the constructor. The error for several
  matches is raised on another branch, where no constructor has been called. The two
  differ whenever the exception of the constructor is not an \<open>OperationalException\<close>.
\<close>

theorem constructor_failure_propagates:
  "(fst (search_object_loop loader ot nm (dir_iterdir d) []) = Inr [(c, p)] \<and>
    cls_init c kw = Inl err \<longrightarrow>
      fst (search_object tn loader d ot nm kw) = Inl err \<and>
      filter is_Instantiate (snd (search_object tn loader d ot nm kw)) =
        [Instantiate (cls_id c) kw]) \<and>
   (fst (search_object_loop loader ot nm (dir_iterdir d) []) = Inr objs \<and> 2 \<le> length objs \<longrightarrow>
      (\<exists>msg. fst (search_object tn loader d ot nm kw) = Inl (OperationalException msg)) \<and>
      filter is_Instantiate (snd (search_object tn loader d ot nm kw)) = []) \<and>
   (fst (search_object_loop loader ot nm (dir_iterdir d) []) = Inr [(c, p)] \<and>
    cls_init c kw = Inl err \<and> (\<forall>msg. err \<noteq> OperationalException msg) \<and>
    fst (search_object_loop loader2 ot2 nm2 (dir_iterdir d2) []) = Inr objs2 \<and>
    2 \<le> length objs2 \<longrightarrow>
      fst (search_object tn loader d ot nm kw) \<noteq> fst (search_object tn2 loader2 d2 ot2 nm2 kw2))"
proof (intro conjI impI)
  assume one: "fst (search_object_loop loader ot nm (dir_iterdir d) []) = Inr [(c, p)] \<and>
               cls_init c kw = Inl err"
  then show "fst (search_object tn loader d ot nm kw) = Inl err"
    by (simp add: search_object_fst)
  from one show "filter is_Instantiate (snd (search_object tn loader d ot nm kw)) =
                   [Instantiate (cls_id c) kw]"
    by (simp add: search_object_Instantiate)
next
  assume many: "fst (search_object_loop loader ot nm (dir_iterdir d) []) = Inr objs \<and>
                2 \<le> length objs"
  then have n: "length objs \<noteq> 0" "length objs \<noteq> 1"
    by auto
  from many n show "\<exists>msg. fst (search_object tn loader d ot nm kw) = Inl (OperationalException msg)"
    by (simp add: search_object_fst)
  from many n show "filter is_Instantiate (snd (search_object tn loader d ot nm kw)) = []"
    by (simp add: search_object_Instantiate)
next
  assume a: "fst (search_object_loop loader ot nm (dir_iterdir d) []) = Inr [(c, p)] \<and>
    cls_init c kw = Inl err \<and> (\<forall>msg. err \<noteq> OperationalException msg) \<and>
    fst (search_object_loop loader2 ot2 nm2 (dir_iterdir d2) []) = Inr objs2 \<and>
    2 \<le> length objs2"
  then have l: "fst (search_object tn loader d ot nm kw) = Inl err"
    by (simp add: search_object_fst)
  from a have n: "length objs2 \<noteq> 0" "length objs2 \<noteq> 1"
    by auto
  with a obtain msg where r: "fst (search_object tn2 loader2 d2 ot2 nm2 kw2) = Inl (OperationalException msg)"
    by (simp add: search_object_fst)
  show "fst (search_object tn loader d ot nm kw) \<noteq> fst (search_object tn2 loader2 d2 ot2 nm2 kw2)"
    using a l r by simp
qed

text \<open>
  A constructor that requires \<open>paramA\<close> is given \<open>paramB\<close> and raises a
  \<open>TypeError\<close>; and a directory with two matches.
\<close>

theorem constructor_failure_propagates_witness:
  "fst (search_object_loop ex_loader ex_IStrategy ''Strict''
          (dir_iterdir (ex_dir [''/s/strict.py'', ''/s/foo.py''])) [])
     = Inr [(ex_Strict, ''/s/strict.py'')] \<and>
   cls_init ex_Strict [''paramB'' \<mapsto> PyInt 1]
     = Inl (OtherException ''TypeError'' ''missing argument paramA'') \<and>
   fst (search_object ''Strategy'' ex_loader (ex_dir [''/s/strict.py'', ''/s/foo.py''])
          ex_IStrategy ''Strict'' [''paramB'' \<mapsto> PyInt 1])
     = Inl (OtherException ''TypeError'' ''missing argument paramA'') \<and>
   filter is_Instantiate (snd (search_object ''Strategy'' ex_loader
       (ex_dir [''/s/strict.py'', ''/s/foo.py'']) ex_IStrategy ''Strict'' [''paramB'' \<mapsto> PyInt 1]))
     = [Instantiate 6 [''paramB'' \<mapsto> PyInt 1]] \<and>
   (\<exists>msg. fst (search_object ''Strategy'' ex_loader (ex_dir [''/s/dup.py'', ''/s/foo.py''])
          ex_IStrategy ''MyStrat'' [''paramB'' \<mapsto> PyInt 1]) = Inl (OperationalException msg)) \<and>
   filter is_Instantiate (snd (search_object ''Strategy'' ex_loader
       (ex_dir [''/s/dup.py'', ''/s/foo.py'']) ex_IStrategy ''MyStrat'' [''paramB'' \<mapsto> PyInt 1]))
     = [] \<and>
   fst (search_object ''Strategy'' ex_loader (ex_dir [''/s/strict.py'', ''/s/foo.py''])
          ex_IStrategy ''Strict'' [''paramB'' \<mapsto> PyInt 1])
     \<noteq> fst (search_object ''Strategy'' ex_loader (ex_dir [''/s/dup.py'', ''/s/foo.py''])
          ex_IStrategy ''MyStrat'' [''paramB'' \<mapsto> PyInt 1])"
proof -
  let ?kw = "[''paramB'' \<mapsto> PyInt 1]"
  let ?d1 = "ex_dir [''/s/strict.py'', ''/s/foo.py'']"
  let ?d2 = "ex_dir [''/s/dup.py'', ''/s/foo.py'']"
  let ?err = "OtherException ''TypeError'' ''missing argument paramA''"
  have l1: "fst (search_object_loop ex_loader ex_IStrategy ''Strict'' (dir_iterdir ?d1) [])
              = Inr [(ex_Strict, ''/s/strict.py'')]"
    by (simp add: ex_defs eval_defs)
  have i1: "cls_init ex_Strict ?kw = Inl ?err"
    by (simp add: ex_defs)
  have l2: "fst (search_object_loop ex_loader ex_IStrategy ''MyStrat'' (dir_iterdir ?d2) [])
              = Inr [(ex_MyStrat2, ''/s/dup.py''), (ex_MyStrat, ''/s/foo.py'')]"
    by (simp add: ex_defs eval_defs)
  have n2: "2 \<le> length [(ex_MyStrat2, ''/s/dup.py''), (ex_MyStrat, ''/s/foo.py'')]"
    by simp
  have ne: "\<forall>msg. ?err \<noteq> OperationalException msg"
    by simp
  have id: "cls_id ex_Strict = 6"
    by (simp add: ex_defs)
  note t1 = constructor_failure_propagates [of ex_loader ex_IStrategy "''Strict''" ?d1
              ex_Strict "''/s/strict.py''" ?kw ?err "''Strategy''" _
              ex_loader ex_IStrategy "''MyStrat''" ?d2
              "[(ex_MyStrat2, ''/s/dup.py''), (ex_MyStrat, ''/s/foo.py'')]" "''Strategy''" ?kw]
  note t2 = constructor_failure_propagates [of ex_loader ex_IStrategy "''MyStrat''" ?d2
              _ _ ?kw _ "''Strategy''"
              "[(ex_MyStrat2, ''/s/dup.py''), (ex_MyStrat, ''/s/foo.py'')]"]
  have a: "fst (search_object ''Strategy'' ex_loader ?d1 ex_IStrategy ''Strict'' ?kw) = Inl ?err"
    using t1 l1 i1 by blast
  have b: "filter is_Instantiate (snd (search_object ''Strategy'' ex_loader ?d1 ex_IStrategy
             ''Strict'' ?kw)) = [Instantiate 6 ?kw]"
    using t1 l1 i1 id by simp
  have c: "\<exists>msg. fst (search_object ''Strategy'' ex_loader ?d2 ex_IStrategy ''MyStrat'' ?kw)
             = Inl (OperationalException msg)"
    using t2 l2 n2 by blast
  have d: "filter is_Instantiate (snd (search_object ''Strategy'' ex_loader ?d2 ex_IStrategy
             ''MyStrat'' ?kw)) = []"
    using t2 l2 n2 by blast
  have e: "fst (search_object ''Strategy'' ex_loader ?d1 ex_IStrategy ''Strict'' ?kw)
     \<noteq> fst (search_object ''Strategy'' ex_loader ?d2 ex_IStrategy ''MyStrat'' ?kw)"
    using t1 l1 i1 ne l2 n2 by blast
  show ?thesis using l1 i1 a b c d e by blast
qed

subsection \<open>The matcher\<close>

text \<open>
  Claim C4. When \<open>_get_valid_object\<close> returns, it returns the first member of the
  module that is a class, is bound to exactly the requested name and has the given class
  among its direct bases; it returns \<open>None\<close> exactly when no member is such a class.
  Only \<open>__bases__\<close> of the member is consulted, never the bases of its bases.
\<close>

theorem get_valid_object_first_match:
  assumes "fst (get_valid_object loader object_type module_path object_name) = Inr r"
  shows "(r = Some c \<longleftrightarrow>
            (\<exists>pre post. mod_members (loader module_path) = pre @ (object_name, ClassObj c) # post \<and>
               cls_id object_type \<in> cls_id ` set (cls_bases c) \<and>
               (\<forall>c'. (object_name, ClassObj c') \<in> set pre \<longrightarrow>
                     cls_id object_type \<notin> cls_id ` set (cls_bases c')))) \<and>
         (r = None \<longleftrightarrow>
            (\<forall>c'. (object_name, ClassObj c') \<in> set (mod_members (loader module_path)) \<longrightarrow>
                  cls_id object_type \<notin> cls_id ` set (cls_bases c')))"
proof -
  let ?ms = "mod_members (loader module_path)"
  have r: "r = next_or_None (valid_objects_gen object_type object_name ?ms)"
    using get_valid_object_Inr [OF assms] .
  have b: "\<And>x. in_bases object_type x \<longleftrightarrow> cls_id object_type \<in> cls_id ` set (cls_bases x)"
    by (simp add: in_bases_def)
  have e: "\<And>xs. valid_objects_gen object_type object_name xs = [] \<longleftrightarrow>
        (\<forall>c'. (object_name, ClassObj c') \<in> set xs \<longrightarrow>
              cls_id object_type \<notin> cls_id ` set (cls_bases c'))"
    using valid_objects_gen_empty_iff [of object_type object_name] b by simp
  have none: "r = None \<longleftrightarrow>
        (\<forall>c'. (object_name, ClassObj c') \<in> set ?ms \<longrightarrow>
              cls_id object_type \<notin> cls_id ` set (cls_bases c'))"
    using r e [of ?ms] by (simp add: next_or_None_None)
  have some: "r = Some c \<longleftrightarrow>
        (\<exists>pre post. ?ms = pre @ (object_name, ClassObj c) # post \<and>
               cls_id object_type \<in> cls_id ` set (cls_bases c) \<and>
               (\<forall>c'. (object_name, ClassObj c') \<in> set pre \<longrightarrow>
                     cls_id object_type \<notin> cls_id ` set (cls_bases c')))"
  proof
    assume "r = Some c"
    then obtain cs where "valid_objects_gen object_type object_name ?ms = c # cs"
      using r by (auto simp: next_or_None_Some)
    from valid_objects_gen_first [OF this]
    show "\<exists>pre post. ?ms = pre @ (object_name, ClassObj c) # post \<and>
               cls_id object_type \<in> cls_id ` set (cls_bases c) \<and>
               (\<forall>c'. (object_name, ClassObj c') \<in> set pre \<longrightarrow>
                     cls_id object_type \<notin> cls_id ` set (cls_bases c'))"
      using b e by blast
  next
    assume "\<exists>pre post. ?ms = pre @ (object_name, ClassObj c) # post \<and>
               cls_id object_type \<in> cls_id ` set (cls_bases c) \<and>
               (\<forall>c'. (object_name, ClassObj c') \<in> set pre \<longrightarrow>
                     cls_id object_type \<notin> cls_id ` set (cls_bases c'))"
    then obtain pre post where p: "?ms = pre @ (object_name, ClassObj c) # post"
        "in_bases object_type c" "valid_objects_gen object_type object_name pre = []"
      using b e by blast
    show "r = Some c"
      using r valid_objects_gen_first_conv [OF p] by (simp add: next_or_None_def)
  qed
  show ?thesis using none some by blast
qed

text \<open>
  The class \<open>MyStrat\<close> of \<open>foo.py\<close> is found; the name \<open>mystrat\<close> is not; the
  class \<open>Deep\<close>, which derives from \<open>MyStrat\<close> and so has \<open>IStrategy\<close> among its
  ancestors but not among its direct bases, is not found either.
\<close>

theorem get_valid_object_first_match_witness:
  "fst (get_valid_object ex_loader ex_IStrategy ''/s/foo.py'' ''MyStrat'') = Inr (Some ex_MyStrat) \<and>
   (\<exists>pre post. mod_members (ex_loader ''/s/foo.py'') = pre @ (''MyStrat'', ClassObj ex_MyStrat) # post \<and>
      cls_id ex_IStrategy \<in> cls_id ` set (cls_bases ex_MyStrat)) \<and>
   fst (get_valid_object ex_loader ex_IStrategy ''/s/foo.py'' ''mystrat'') = Inr None \<and>
   fst (get_valid_object ex_loader ex_IStrategy ''/s/deep.py'' ''Deep'') = Inr None \<and>
   cls_id ex_IStrategy \<in> set (ancestors ex_Deep) \<and>
   cls_id ex_IStrategy \<notin> cls_id ` set (cls_bases ex_Deep)"
proof -
  have h: "fst (get_valid_object ex_loader ex_IStrategy ''/s/foo.py'' ''MyStrat'')
             = Inr (Some ex_MyStrat)"
    by (simp add: ex_defs eval_defs)
  have m: "\<exists>pre post. mod_members (ex_loader ''/s/foo.py'')
               = pre @ (''MyStrat'', ClassObj ex_MyStrat) # post \<and>
             cls_id ex_IStrategy \<in> cls_id ` set (cls_bases ex_MyStrat)"
    using get_valid_object_first_match [OF h, of ex_MyStrat] by blast
  have rest: "fst (get_valid_object ex_loader ex_IStrategy ''/s/foo.py'' ''mystrat'') = Inr None \<and>
     fst (get_valid_object ex_loader ex_IStrategy ''/s/deep.py'' ''Deep'') = Inr None \<and>
     cls_id ex_IStrategy \<in> set (ancestors ex_Deep) \<and>
     cls_id ex_IStrategy \<notin> cls_id ` set (cls_bases ex_Deep)"
    by (simp add: ex_defs eval_defs)
  show ?thesis using h m rest by blast
qed

subsection \<open>Files that fail to load\<close>

text \<open>
  Claim C9. When the execution of a module raises an exception that the \<open>except\<close>
  clause catches, the module is inspected all the same: a class with the requested name
  and the given direct base that the module holds is returned, after the warning, and
  when no other file of the directory matches, the search returns an instance of it.
\<close>

theorem partial_module_still_matched:
  assumes "mod_raised (loader p) = Some err" and "caught err"
    and "mod_members (loader p) = pre @ (nm, ClassObj c) # post"
    and "cls_id ot \<in> cls_id ` set (cls_bases c)"
    and "\<forall>c'. (nm, ClassObj c') \<in> set pre \<longrightarrow> cls_id ot \<notin> cls_id ` set (cls_bases c')"
    and "dir_iterdir d = es1 @ e # es2"
    and "entry_module_path e = p" and "endswith (entry_str e) ''.py''"
    and "\<forall>x \<in> set (es1 @ es2). \<not> aborts loader x"
    and "candidates loader ot nm (es1 @ es2) = []"
    and "cls_init c kw = Inr inst"
  shows "get_valid_object loader ot p nm =
           (Inr (Some c),
            [ExecModule p,
             LogWarning (''Could not import '' @ p @ '' due to '' @
                         [CHR 0x27] @ exc_str err @ [CHR 0x27])]) \<and>
         fst (search_object_loop loader ot nm (dir_iterdir d) []) = Inr [(c, p)] \<and>
         fst (search_object tn loader d ot nm kw) = Inr (Some (inst, p))"
proof -
  have ib: "in_bases ot c"
    using assms(4) by (simp add: in_bases_def)
  have "valid_objects_gen ot nm pre = []"
    using assms(5) by (simp add: valid_objects_gen_empty_iff in_bases_def)
  then have found: "next_or_None (valid_objects_gen ot nm (mod_members (loader p))) = Some c"
    using valid_objects_gen_first_conv [OF assms(3) ib] by (simp add: next_or_None_def)
  have gv: "get_valid_object loader ot p nm =
           (Inr (Some c),
            [ExecModule p,
             LogWarning (''Could not import '' @ p @ '' due to '' @
                         [CHR 0x27] @ exc_str err @ [CHR 0x27])])"
    using assms(1,2) found by (simp add: get_valid_object_cases)
  have em: "entry_matches loader ot nm e = [(c, p)]"
    using assms(7,8) found by (simp add: entry_matches_def)
  have c12: "candidates loader ot nm es1 = []" "candidates loader ot nm es2 = []"
    using assms(10) by (simp_all add: candidates_append)
  have cand: "candidates loader ot nm (dir_iterdir d) = [(c, p)]"
    using em c12 by (simp add: assms(6) candidates_append candidates_Cons)
  have na: "\<forall>x \<in> set (dir_iterdir d). \<not> aborts loader x"
    using assms(9) caught_not_aborts [of loader e err] assms(1,2,7) by (auto simp: assms(6))
  have l: "fst (search_object_loop loader ot nm (dir_iterdir d) []) = Inr [(c, p)]"
    using loop_complete [OF na, of ot nm "[]"] cand by simp
  have s: "fst (search_object tn loader d ot nm kw) = Inr (Some (inst, p))"
    using l assms(11) by (simp add: search_object_fst)
  show ?thesis using gv l s by simp
qed

text \<open>
  \<open>partial.py\<close> defines \<open>MyStrat\<close> and then fails on an import; it is the result
  of the search.
\<close>

theorem partial_module_still_matched_witness:
  "get_valid_object ex_loader ex_IStrategy ''/s/partial.py'' ''MyStrat'' =
     (Inr (Some ex_MyStrat2),
      [ExecModule ''/s/partial.py'',
       LogWarning (''Could not import /s/partial.py due to '' @ [CHR 0x27] @
                   ''No module named talib'' @ [CHR 0x27])]) \<and>
   fst (search_object ''Strategy'' ex_loader
          (ex_dir [''/s/bar.py'', ''/s/partial.py'', ''/s/notes.txt''])
          ex_IStrategy ''MyStrat'' [''paramA'' \<mapsto> PyInt 5])
     = Inr (Some (Instance 3 [''paramA'' \<mapsto> PyInt 5], ''/s/partial.py''))"
proof -
  let ?err = "ModuleNotFoundError ''No module named talib''"
  let ?d = "ex_dir [''/s/bar.py'', ''/s/partial.py'', ''/s/notes.txt'']"
  have h1: "mod_raised (ex_loader ''/s/partial.py'') = Some ?err"
    by (simp add: ex_defs)
  have h2: "caught ?err" by simp
  have h3: "mod_members (ex_loader ''/s/partial.py'') = [] @ (''MyStrat'', ClassObj ex_MyStrat2) # []"
    by (simp add: ex_defs)
  have h4: "cls_id ex_IStrategy \<in> cls_id ` set (cls_bases ex_MyStrat2)"
    by (simp add: ex_defs)
  have h5: "\<forall>c'. (''MyStrat'', ClassObj c') \<in> set [] \<longrightarrow>
                 cls_id ex_IStrategy \<notin> cls_id ` set (cls_bases c')"
    by simp
  have h6: "dir_iterdir ?d = [ex_entry ''/s/bar.py''] @ ex_entry ''/s/partial.py'' # [ex_entry ''/s/notes.txt'']"
    by (simp add: ex_dir_def)
  have h7: "entry_module_path (ex_entry ''/s/partial.py'') = ''/s/partial.py''"
    by (simp add: ex_entry_def)
  have h8: "endswith (entry_str (ex_entry ''/s/partial.py'')) ''.py''"
    by (simp add: ex_entry_def endswith_def)
  have h9: "\<forall>x \<in> set ([ex_entry ''/s/bar.py''] @ [ex_entry ''/s/notes.txt'']). \<not> aborts ex_loader x"
    by (simp add: ex_defs aborts_def endswith_def)
  have h10: "candidates ex_loader ex_IStrategy ''MyStrat''
               ([ex_entry ''/s/bar.py''] @ [ex_entry ''/s/notes.txt'']) = []"
    by (simp add: ex_defs eval_defs candidates_def entry_matches_def)
  have h11: "cls_init ex_MyStrat2 [''paramA'' \<mapsto> PyInt 5] = Inr (Instance 3 [''paramA'' \<mapsto> PyInt 5])"
    by (simp add: ex_defs)
  show ?thesis
    using partial_module_still_matched [OF h1 h2 h3 h4 h5 h6 h7 h8 h9 h10 h11, of "''Strategy''"]
    by simp
qed

text \<open>
  Claim C3 says that a file that fails to load, by a syntax error or by a missing symbol,
  is logged and skipped, and that the failure never ends the scan. Neither holds as
  stated. \<open>partial.py\<close> fails with a \<open>ModuleNotFoundError\<close> and is not skipped: its
  class is the result of the search, where the same directory without the file gives
  \<open>(None, None)\<close>. And \<open>crash.py\<close> fails with a \<open>NameError\<close>, which the
  \<open>except\<close> clause does not list: the exception leaves the search, and \<open>foo.py\<close>,
  which comes later and matches, is never loaded.
\<close>

theorem load_failure_skipped_counterexample:
  "mod_raised (ex_loader ''/s/partial.py'') = Some (ModuleNotFoundError ''No module named talib'') \<and>
   fst (search_object ''Strategy'' ex_loader (ex_dir [''/s/partial.py'', ''/s/bar.py''])
          ex_IStrategy ''MyStrat'' Map.empty)
     = Inr (Some (Instance 3 Map.empty, ''/s/partial.py'')) \<and>
   fst (search_object ''Strategy'' ex_loader (ex_dir [''/s/bar.py''])
          ex_IStrategy ''MyStrat'' Map.empty) = Inr None \<and>
   mod_raised (ex_loader ''/s/crash.py'') = Some (NameError ''name x is not defined'') \<and>
   fst (search_object ''Strategy'' ex_loader (ex_dir [''/s/crash.py'', ''/s/foo.py''])
          ex_IStrategy ''MyStrat'' Map.empty)
     = Inl (NameError ''name x is not defined'') \<and>
   fst (search_object ''Strategy'' ex_loader (ex_dir [''/s/foo.py''])
          ex_IStrategy ''MyStrat'' Map.empty)
     = Inr (Some (Instance 2 Map.empty, ''/s/foo.py''))"
  by (simp add: ex_defs eval_defs search_object_def)

text \<open>
  Claim C3, amended. A Python file whose execution raises \<open>ModuleNotFoundError\<close> or
  \<open>SyntaxError\<close> (or a subclass of these) is logged with a warning and does not end
  the scan: the loop goes on with the entries after it as it does after a file that
  loaded, with the match of the module of the failing file, if it holds one, added to
  \<open>objs\<close>. So the warning is logged whenever the scan reaches the file, a later Python
  file is executed whenever no entry before it raises an exception that is not caught,
  and when no entry at all raises such an exception the loop ends with the candidates of
  all entries, those of the later files among them.
\<close>

theorem caught_failure_scan_continues:
  assumes "endswith (entry_str bad) ''.py''"
    and "mod_raised (loader (entry_module_path bad)) = Some err"
    and "caught err"
  shows "search_object_loop loader ot nm (bad # es2) objs =
           (case search_object_loop loader ot nm es2 (objs @ entry_matches loader ot nm bad) of
              (r, t) \<Rightarrow>
                (r, [ExecModule (entry_module_path bad),
                     LogWarning (''Could not import '' @ entry_module_path bad @ '' due to '' @
                                 [CHR 0x27] @ exc_str err @ [CHR 0x27])] @ t)) \<and>
         ((\<forall>x \<in> set es1. \<not> aborts loader x) \<longrightarrow>
            LogWarning (''Could not import '' @ entry_module_path bad @ '' due to '' @
                        [CHR 0x27] @ exc_str err @ [CHR 0x27])
              \<in> set (snd (search_object_loop loader ot nm (es1 @ bad # es2) []))) \<and>
         ((\<forall>x \<in> set (es1 @ mid). \<not> aborts loader x) \<and> endswith (entry_str good) ''.py'' \<longrightarrow>
            ExecModule (entry_module_path good)
              \<in> set (snd (search_object_loop loader ot nm (es1 @ bad # mid @ good # rest) []))) \<and>
         ((\<forall>x \<in> set (es1 @ es2). \<not> aborts loader x) \<longrightarrow>
            fst (search_object_loop loader ot nm (es1 @ bad # es2) []) =
              Inr (candidates loader ot nm es1 @ entry_matches loader ot nm bad @
                   candidates loader ot nm es2) \<and>
            (\<forall>g \<in> set es2. endswith (entry_str g) ''.py'' \<longrightarrow>
               ExecModule (entry_module_path g)
                 \<in> set (snd (search_object_loop loader ot nm (es1 @ bad # es2) [])) \<and>
               set (entry_matches loader ot nm g) \<subseteq>
                 set (candidates loader ot nm (es1 @ bad # es2))))"
proof (intro conjI impI)
  show "search_object_loop loader ot nm (bad # es2) objs =
           (case search_object_loop loader ot nm es2 (objs @ entry_matches loader ot nm bad) of
              (r, t) \<Rightarrow>
                (r, [ExecModule (entry_module_path bad),
                     LogWarning (''Could not import '' @ entry_module_path bad @ '' due to '' @
                                 [CHR 0x27] @ exc_str err @ [CHR 0x27])] @ t))"
    using assms by (rule loop_caught_head)
next
  assume na: "\<forall>x \<in> set es1. \<not> aborts loader x"
  have "LogWarning (''Could not import '' @ entry_module_path bad @ '' due to '' @
                        [CHR 0x27] @ exc_str err @ [CHR 0x27])
          \<in> set (snd (search_object_loop loader ot nm (bad # es2) objs'))" for objs'
    using loop_caught_head [of bad loader err ot nm es2 objs'] assms
    by (simp split: prod.splits del: search_object_loop.simps)
  then show "LogWarning (''Could not import '' @ entry_module_path bad @ '' due to '' @
                        [CHR 0x27] @ exc_str err @ [CHR 0x27])
              \<in> set (snd (search_object_loop loader ot nm (es1 @ bad # es2) []))"
    using loop_prefix_event [OF na, of _ ot nm "bad # es2" "[]"] by blast
next
  assume a: "(\<forall>x \<in> set (es1 @ mid). \<not> aborts loader x) \<and> endswith (entry_str good) ''.py''"
  have nb: "\<not> aborts loader bad"
    using assms(2,3) by (rule caught_not_aborts)
  have "\<forall>x \<in> set (es1 @ bad # mid). \<not> aborts loader x"
    using a nb by auto
  then have "ExecModule (entry_module_path good)
               \<in> set (snd (search_object_loop loader ot nm ((es1 @ bad # mid) @ good # rest) []))"
    using a by (intro loop_prefix_exec) simp_all
  then show "ExecModule (entry_module_path good)
              \<in> set (snd (search_object_loop loader ot nm (es1 @ bad # mid @ good # rest) []))"
    by simp
next
  assume n: "\<forall>x \<in> set (es1 @ es2). \<not> aborts loader x"
  have nb: "\<not> aborts loader bad"
    using assms(2,3) by (rule caught_not_aborts)
  have na: "\<forall>x \<in> set (es1 @ bad # es2). \<not> aborts loader x"
    using n nb by auto
  show "fst (search_object_loop loader ot nm (es1 @ bad # es2) []) =
              Inr (candidates loader ot nm es1 @ entry_matches loader ot nm bad @
                   candidates loader ot nm es2)"
    by (simp add: loop_no_abort [OF na] candidates_append candidates_Cons)
  show "\<forall>g \<in> set es2. endswith (entry_str g) ''.py'' \<longrightarrow>
               ExecModule (entry_module_path g)
                 \<in> set (snd (search_object_loop loader ot nm (es1 @ bad # es2) [])) \<and>
               set (entry_matches loader ot nm g) \<subseteq>
                 set (candidates loader ot nm (es1 @ bad # es2))"
  proof (intro ballI impI conjI)
    fix g assume m: "g \<in> set es2" and py: "endswith (entry_str g) ''.py''"
    show "ExecModule (entry_module_path g)
            \<in> set (snd (search_object_loop loader ot nm (es1 @ bad # es2) []))"
      by (rule loop_trace_member [OF na, of g]) (simp_all add: m py_entry_ExecModule [OF py])
    show "set (entry_matches loader ot nm g) \<subseteq> set (candidates loader ot nm (es1 @ bad # es2))"
      using m by (auto simp: candidates_def)
  qed
qed

text \<open>
  \<open>broken.py\<close> has a syntax error; \<open>foo.py\<close>, listed after it, is loaded and is
  the only candidate. With \<open>crash.py\<close> between the two, the scan goes on after
  \<open>broken.py\<close> and ends at \<open>crash.py\<close> with its \<open>NameError\<close>.
\<close>

theorem caught_failure_scan_continues_witness:
  "fst (search_object_loop ex_loader ex_IStrategy ''MyStrat''
          ([ex_entry ''/s/bar.py''] @ ex_entry ''/s/broken.py'' # [ex_entry ''/s/foo.py'']) [])
     = Inr [(ex_MyStrat, ''/s/foo.py'')] \<and>
   LogWarning (''Could not import /s/broken.py due to '' @ [CHR 0x27] @
               ''invalid syntax (broken.py, line 1)'' @ [CHR 0x27])
     \<in> set (snd (search_object_loop ex_loader ex_IStrategy ''MyStrat''
          ([ex_entry ''/s/bar.py''] @ ex_entry ''/s/broken.py'' # [ex_entry ''/s/foo.py'']) [])) \<and>
   ExecModule ''/s/foo.py''
     \<in> set (snd (search_object_loop ex_loader ex_IStrategy ''MyStrat''
          ([ex_entry ''/s/bar.py''] @ ex_entry ''/s/broken.py'' # [ex_entry ''/s/foo.py'']) [])) \<and>
   search_object_loop ex_loader ex_IStrategy ''MyStrat''
          (ex_entry ''/s/broken.py'' # [ex_entry ''/s/crash.py'', ex_entry ''/s/foo.py'']) []
     = (Inl (NameError ''name x is not defined''),
        [ExecModule ''/s/broken.py'',
         LogWarning (''Could not import /s/broken.py due to '' @ [CHR 0x27] @
                     ''invalid syntax (broken.py, line 1)'' @ [CHR 0x27]),
         ExecModule ''/s/crash.py''])"
proof -
  let ?err = "SyntaxError ''invalid syntax (broken.py, line 1)''"
  have h1: "endswith (entry_str (ex_entry ''/s/broken.py'')) ''.py''"
    by (simp add: ex_entry_def endswith_def)
  have h2: "mod_raised (ex_loader (entry_module_path (ex_entry ''/s/broken.py''))) = Some ?err"
    by (simp add: ex_defs)
  have h3: "caught ?err" by simp
  have h4: "\<forall>x \<in> set ([ex_entry ''/s/bar.py''] @ [ex_entry ''/s/foo.py'']). \<not> aborts ex_loader x"
    by (simp add: ex_defs aborts_def endswith_def)
  have c: "candidates ex_loader ex_IStrategy ''MyStrat'' [ex_entry ''/s/bar.py''] @
           entry_matches ex_loader ex_IStrategy ''MyStrat'' (ex_entry ''/s/broken.py'') @
           candidates ex_loader ex_IStrategy ''MyStrat'' [ex_entry ''/s/foo.py'']
             = [(ex_MyStrat, ''/s/foo.py'')]"
    by (simp add: ex_defs eval_defs candidates_def entry_matches_def)
  have py: "endswith (entry_str (ex_entry ''/s/foo.py'')) ''.py''"
    by (simp add: ex_entry_def endswith_def)
  have p: "entry_module_path (ex_entry ''/s/foo.py'') = ''/s/foo.py''"
          "entry_module_path (ex_entry ''/s/broken.py'') = ''/s/broken.py''"
    by (simp_all add: ex_entry_def)
  note t = caught_failure_scan_continues
             [where bad = "ex_entry ''/s/broken.py''" and loader = ex_loader and err = ?err
                and ot = ex_IStrategy and nm = "''MyStrat''"
                and ?es2.0 = "[ex_entry ''/s/foo.py'']" and objs = "[]"
                and ?es1.0 = "[ex_entry ''/s/bar.py'']" and mid = "[]"
                and good = "ex_entry ''/s/foo.py''" and rest = "[]", OF h1 h2 h3]
  have a: "fst (search_object_loop ex_loader ex_IStrategy ''MyStrat''
          ([ex_entry ''/s/bar.py''] @ ex_entry ''/s/broken.py'' # [ex_entry ''/s/foo.py'']) [])
     = Inr [(ex_MyStrat, ''/s/foo.py'')]"
    using t h4 c by simp
  have b: "LogWarning (''Could not import /s/broken.py due to '' @ [CHR 0x27] @
               ''invalid syntax (broken.py, line 1)'' @ [CHR 0x27])
     \<in> set (snd (search_object_loop ex_loader ex_IStrategy ''MyStrat''
          ([ex_entry ''/s/bar.py''] @ ex_entry ''/s/broken.py'' # [ex_entry ''/s/foo.py'']) []))"
    using t h4 p by simp
  have e: "ExecModule ''/s/foo.py''
     \<in> set (snd (search_object_loop ex_loader ex_IStrategy ''MyStrat''
          ([ex_entry ''/s/bar.py''] @ ex_entry ''/s/broken.py'' # [ex_entry ''/s/foo.py'']) []))"
    using t h4 py p by simp
  have r: "search_object_loop ex_loader ex_IStrategy ''MyStrat''
             [ex_entry ''/s/crash.py'', ex_entry ''/s/foo.py'']
             ([] @ entry_matches ex_loader ex_IStrategy ''MyStrat'' (ex_entry ''/s/broken.py''))
           = (Inl (NameError ''name x is not defined''), [ExecModule ''/s/crash.py''])"
    by (simp add: ex_defs eval_defs entry_matches_def)
  have f: "search_object_loop ex_loader ex_IStrategy ''MyStrat''
          (ex_entry ''/s/broken.py'' # [ex_entry ''/s/crash.py'', ex_entry ''/s/foo.py'']) []
     = (Inl (NameError ''name x is not defined''),
        [ExecModule ''/s/broken.py'',
         LogWarning (''Could not import /s/broken.py due to '' @ [CHR 0x27] @
                     ''invalid syntax (broken.py, line 1)'' @ [CHR 0x27]),
         ExecModule ''/s/crash.py''])"
    using caught_failure_scan_continues
             [where bad = "ex_entry ''/s/broken.py''" and loader = ex_loader and err = ?err
                and ot = ex_IStrategy and nm = "''MyStrat''"
                and ?es2.0 = "[ex_entry ''/s/crash.py'', ex_entry ''/s/foo.py'']"
                and objs = "[]", OF h1 h2 h3]
    by (simp only: r p) simp
  show ?thesis using a b e f by blast
qed

subsection \<open>One directory per search\<close>

text \<open>
  Claim C2 says that the resolution takes a sequence of directories, collects the
  candidates of all of them in one list and detects ambiguity across the whole search
  path. \<open>_search_object\<close> takes one directory. In a search path of two directories that
  each hold one file defining \<open>MyStrat(IStrategy)\<close>, there are two candidates, and the
  search of either directory returns an instance: nothing reports the collision.
\<close>

theorem search_path_counterexample:
  "length (candidates ex_loader ex_IStrategy ''MyStrat''
             (dir_iterdir (ex_dir [''/s/foo.py'']) @ dir_iterdir (ex_dir_t [''/t/dup.py''])))
     = 2 \<and>
   fst (search_object ''Strategy'' ex_loader (ex_dir [''/s/foo.py''])
          ex_IStrategy ''MyStrat'' Map.empty)
     = Inr (Some (Instance 2 Map.empty, ''/s/foo.py'')) \<and>
   fst (search_object ''Strategy'' ex_loader (ex_dir_t [''/t/dup.py''])
          ex_IStrategy ''MyStrat'' Map.empty)
     = Inr (Some (Instance 3 Map.empty, ''/t/dup.py''))"
  by (simp add: ex_defs eval_defs search_object_def candidates_def entry_matches_def)

text \<open>
  Claim C2, amended. The search takes one directory and goes through its entries in the
  order of the listing. It does not stop at a match: a Python file is executed whenever
  no entry before it raises an exception that is not caught. The first entry that raises
  such an exception ends the search with that exception, and the entries after it are
  not looked at. When no entry raises such an exception, every Python file is executed,
  the list \<open>objs\<close> ends as the candidates of all entries in the order of the listing,
  and two or more candidates in the directory make the search raise an
  \<open>OperationalException\<close>.
\<close>

theorem search_object_scans_directory:
  "((\<forall>x \<in> set (dir_iterdir d). \<not> aborts loader x) \<longrightarrow>
      fst (search_object_loop loader ot nm (dir_iterdir d) []) =
        Inr (candidates loader ot nm (dir_iterdir d)) \<and>
      snd (search_object_loop loader ot nm (dir_iterdir d) []) =
        concat (map (entry_events loader ot nm) (dir_iterdir d)) \<and>
      (\<forall>x \<in> set (dir_iterdir d). endswith (entry_str x) ''.py'' \<longrightarrow>
         ExecModule (entry_module_path x) \<in> set (snd (search_object tn loader d ot nm kw))) \<and>
      (2 \<le> length (candidates loader ot nm (dir_iterdir d)) \<longrightarrow>
         (\<exists>msg. fst (search_object tn loader d ot nm kw) = Inl (OperationalException msg)))) \<and>
   (dir_iterdir d = pre @ e # rest \<and> (\<forall>x \<in> set pre. \<not> aborts loader x) \<and>
    endswith (entry_str e) ''.py'' \<longrightarrow>
      ExecModule (entry_module_path e) \<in> set (snd (search_object tn loader d ot nm kw))) \<and>
   (dir_iterdir d = pre @ e # rest \<and> (\<forall>x \<in> set pre. \<not> aborts loader x) \<and>
    aborts loader e \<and> mod_raised (loader (entry_module_path e)) = Some err \<longrightarrow>
      search_object tn loader d ot nm kw =
        (Inl err,
         LogDebug (''Searching for '' @ cls_name ot @ '' '' @ nm @ '' in '' @ [CHR 0x27] @
                   dir_str d @ [CHR 0x27]) #
         concat (map (entry_events loader ot nm) pre) @ [ExecModule (entry_module_path e)]))"
proof (intro conjI impI)
  assume na: "\<forall>x \<in> set (dir_iterdir d). \<not> aborts loader x"
  show l: "fst (search_object_loop loader ot nm (dir_iterdir d) []) =
           Inr (candidates loader ot nm (dir_iterdir d))"
    by (simp add: loop_no_abort [OF na])
  show "snd (search_object_loop loader ot nm (dir_iterdir d) []) =
           concat (map (entry_events loader ot nm) (dir_iterdir d))"
    by (simp add: loop_no_abort [OF na])
  show "\<forall>x \<in> set (dir_iterdir d). endswith (entry_str x) ''.py'' \<longrightarrow>
            ExecModule (entry_module_path x) \<in> set (snd (search_object tn loader d ot nm kw))"
  proof (intro ballI impI)
    fix x assume m: "x \<in> set (dir_iterdir d)" and py: "endswith (entry_str x) ''.py''"
    show "ExecModule (entry_module_path x) \<in> set (snd (search_object tn loader d ot nm kw))"
      using search_object_trace_member [OF na m py_entry_ExecModule [OF py]] .
  qed
  assume n: "2 \<le> length (candidates loader ot nm (dir_iterdir d))"
  then have "length (candidates loader ot nm (dir_iterdir d)) \<noteq> 0"
      "length (candidates loader ot nm (dir_iterdir d)) \<noteq> 1"
    by auto
  then show "\<exists>msg. fst (search_object tn loader d ot nm kw) = Inl (OperationalException msg)"
    unfolding search_object_fst l by simp
next
  assume a: "dir_iterdir d = pre @ e # rest \<and> (\<forall>x \<in> set pre. \<not> aborts loader x) \<and>
             endswith (entry_str e) ''.py''"
  then have "ExecModule (entry_module_path e)
               \<in> set (snd (search_object_loop loader ot nm (dir_iterdir d) []))"
    using loop_prefix_exec [of pre loader e ot nm rest "[]"] by simp
  then show "ExecModule (entry_module_path e) \<in> set (snd (search_object tn loader d ot nm kw))"
    by (rule search_object_trace_loop)
next
  assume a: "dir_iterdir d = pre @ e # rest \<and> (\<forall>x \<in> set pre. \<not> aborts loader x) \<and>
             aborts loader e \<and> mod_raised (loader (entry_module_path e)) = Some err"
  then have "search_object_loop loader ot nm (dir_iterdir d) [] =
               (Inl err, concat (map (entry_events loader ot nm) pre) @
                         [ExecModule (entry_module_path e)])"
    using loop_first_abort [of pre loader e err ot nm rest "[]"] by simp
  then show "search_object tn loader d ot nm kw =
        (Inl err,
         LogDebug (''Searching for '' @ cls_name ot @ '' '' @ nm @ '' in '' @ [CHR 0x27] @
                   dir_str d @ [CHR 0x27]) #
         concat (map (entry_events loader ot nm) pre) @ [ExecModule (entry_module_path e)])"
    by (rule search_object_loop_raises)
qed

text \<open>
  The first file matches; the files after it are executed all the same, and the second
  match, in the last file, makes the search fail. With \<open>crash.py\<close> in second place the
  search ends there with the \<open>NameError\<close>.
\<close>

theorem search_object_scans_directory_witness:
  "fst (search_object_loop ex_loader ex_IStrategy ''MyStrat''
          (dir_iterdir (ex_dir [''/s/foo.py'', ''/s/notes.txt'', ''/s/bar.py'', ''/s/dup.py''])) [])
     = Inr [(ex_MyStrat, ''/s/foo.py''), (ex_MyStrat2, ''/s/dup.py'')] \<and>
   ExecModule ''/s/bar.py'' \<in> set (snd (search_object ''Strategy'' ex_loader
          (ex_dir [''/s/foo.py'', ''/s/notes.txt'', ''/s/bar.py'', ''/s/dup.py''])
          ex_IStrategy ''MyStrat'' Map.empty)) \<and>
   ExecModule ''/s/dup.py'' \<in> set (snd (search_object ''Strategy'' ex_loader
          (ex_dir [''/s/foo.py'', ''/s/notes.txt'', ''/s/bar.py'', ''/s/dup.py''])
          ex_IStrategy ''MyStrat'' Map.empty)) \<and>
   (\<exists>msg. fst (search_object ''Strategy'' ex_loader
          (ex_dir [''/s/foo.py'', ''/s/notes.txt'', ''/s/bar.py'', ''/s/dup.py''])
          ex_IStrategy ''MyStrat'' Map.empty) = Inl (OperationalException msg)) \<and>
   search_object ''Strategy'' ex_loader (ex_dir [''/s/foo.py'', ''/s/crash.py'', ''/s/dup.py''])
          ex_IStrategy ''MyStrat'' Map.empty
     = (Inl (NameError ''name x is not defined''),
        [LogDebug (''Searching for IStrategy MyStrat in '' @ [CHR 0x27] @ ''/s'' @ [CHR 0x27]),
         ExecModule ''/s/foo.py'', ExecModule ''/s/crash.py''])"
proof -
  let ?d = "ex_dir [''/s/foo.py'', ''/s/notes.txt'', ''/s/bar.py'', ''/s/dup.py'']"
  let ?c = "ex_dir [''/s/foo.py'', ''/s/crash.py'', ''/s/dup.py'']"
  have h: "\<forall>e \<in> set (dir_iterdir ?d). \<not> aborts ex_loader e"
    by (simp add: ex_defs aborts_def endswith_def)
  have c: "candidates ex_loader ex_IStrategy ''MyStrat'' (dir_iterdir ?d)
             = [(ex_MyStrat, ''/s/foo.py''), (ex_MyStrat2, ''/s/dup.py'')]"
    by (simp add: ex_defs eval_defs candidates_def entry_matches_def)
  have m: "ex_entry ''/s/bar.py'' \<in> set (dir_iterdir ?d)"
          "ex_entry ''/s/dup.py'' \<in> set (dir_iterdir ?d)"
    by (simp_all add: ex_dir_def)
  have py: "endswith (entry_str (ex_entry ''/s/bar.py'')) ''.py''"
           "endswith (entry_str (ex_entry ''/s/dup.py'')) ''.py''"
    by (simp_all add: ex_entry_def endswith_def)
  have p: "entry_module_path (ex_entry ''/s/bar.py'') = ''/s/bar.py''"
          "entry_module_path (ex_entry ''/s/dup.py'') = ''/s/dup.py''"
          "entry_module_path (ex_entry ''/s/crash.py'') = ''/s/crash.py''"
    by (simp_all add: ex_entry_def)
  note t = search_object_scans_directory
             [of ?d ex_loader ex_IStrategy "''MyStrat''" "''Strategy''" Map.empty]
  have a: "fst (search_object_loop ex_loader ex_IStrategy ''MyStrat'' (dir_iterdir ?d) [])
             = Inr [(ex_MyStrat, ''/s/foo.py''), (ex_MyStrat2, ''/s/dup.py'')]"
    using t h c by simp
  have b1: "ExecModule ''/s/bar.py'' \<in> set (snd (search_object ''Strategy'' ex_loader ?d
          ex_IStrategy ''MyStrat'' Map.empty))"
    using t h m(1) py(1) p(1) by force
  have b2: "ExecModule ''/s/dup.py'' \<in> set (snd (search_object ''Strategy'' ex_loader ?d
          ex_IStrategy ''MyStrat'' Map.empty))"
    using t h m(2) py(2) p(2) by force
  have e: "\<exists>msg. fst (search_object ''Strategy'' ex_loader ?d
          ex_IStrategy ''MyStrat'' Map.empty) = Inl (OperationalException msg)"
    using t h c by simp
  have k1: "dir_iterdir ?c = [ex_entry ''/s/foo.py''] @ ex_entry ''/s/crash.py'' # [ex_entry ''/s/dup.py'']"
    by (simp add: ex_dir_def)
  have k2: "\<forall>x \<in> set [ex_entry ''/s/foo.py'']. \<not> aborts ex_loader x"
    by (simp add: ex_defs aborts_def endswith_def)
  have k3: "aborts ex_loader (ex_entry ''/s/crash.py'')"
    by (simp add: ex_defs aborts_def endswith_def)
  have k4: "mod_raised (ex_loader (entry_module_path (ex_entry ''/s/crash.py'')))
              = Some (NameError ''name x is not defined'')"
    by (simp add: ex_defs)
  have k5: "entry_events ex_loader ex_IStrategy ''MyStrat'' (ex_entry ''/s/foo.py'')
              = [ExecModule ''/s/foo.py'']"
    by (simp add: ex_defs eval_defs entry_events_def)
  have k6: "cls_name ex_IStrategy = ''IStrategy''" "dir_str ?c = ''/s''"
    by (simp_all add: ex_defs)
  have f: "search_object ''Strategy'' ex_loader ?c ex_IStrategy ''MyStrat'' Map.empty
     = (Inl (NameError ''name x is not defined''),
        [LogDebug (''Searching for IStrategy MyStrat in '' @ [CHR 0x27] @ ''/s'' @ [CHR 0x27]),
         ExecModule ''/s/foo.py'', ExecModule ''/s/crash.py''])"
    using search_object_scans_directory
             [of ?c ex_loader ex_IStrategy "''MyStrat''" "''Strategy''" Map.empty
                 "[ex_entry ''/s/foo.py'']" "ex_entry ''/s/crash.py''" "[ex_entry ''/s/dup.py'']"
                 "NameError ''name x is not defined''"]
          k1 k2 k3 k4
    by (simp add: k5 k6 p)
  show ?thesis using a b1 b2 e f by blast
qed

subsection \<open>The keyword arguments\<close>

text \<open>
  Claim C10. A call leaves every dictionary that exists when it starts as it was, the
  dictionary it was passed and the default dictionary among them, whatever the
  constructor does to the dictionary of keyword arguments it receives. So, with the
  default dictionary empty, a call that omits \<open>kwargs\<close> gives what a call with a new
  empty dictionary gives, and in any sequence of calls each call gives what it gives on
  its own and the default dictionary is empty at the end: no call sees the keyword
  arguments of an earlier one.
\<close>

theorem search_object_kwargs_unchanged:
  "(b < next_addr h \<longrightarrow>
      cells (snd (call_search_object leaves default_kwargs tn loader d ot nm passed h)) b
        = cells h b) \<and>
   (default_kwargs < next_addr h \<and> cells h default_kwargs = Map.empty \<longrightarrow>
      fst (call_search_object leaves default_kwargs tn loader d ot nm None h) =
        search_object tn loader d ot nm Map.empty \<and>
      fst (call_search_object leaves default_kwargs tn loader d ot nm None h) =
        fst (call_search_object leaves default_kwargs tn loader d ot nm
               (Some (fst (alloc Map.empty h))) (snd (alloc Map.empty h))) \<and>
      fst (call_sequence leaves default_kwargs tn loader calls h) =
        map (\<lambda>(d, ot, nm, given).
               search_object tn loader d ot nm
                 (case given of None \<Rightarrow> Map.empty | Some items \<Rightarrow> items)) calls \<and>
      cells (snd (call_sequence leaves default_kwargs tn loader calls h)) default_kwargs
        = Map.empty)"
proof (intro conjI impI)
  assume "b < next_addr h"
  then show "cells (snd (call_search_object leaves default_kwargs tn loader d ot nm passed h)) b
               = cells h b"
    by (simp add: call_search_object_def search_object_store_frame)
next
  assume a: "default_kwargs < next_addr h \<and> cells h default_kwargs = Map.empty"
  then show n: "fst (call_search_object leaves default_kwargs tn loader d ot nm None h) =
        search_object tn loader d ot nm Map.empty"
    by (simp add: call_search_object_def search_object_store_result)
  have "fst (call_search_object leaves default_kwargs tn loader d ot nm
               (Some (fst (alloc Map.empty h))) (snd (alloc Map.empty h))) =
        search_object tn loader d ot nm Map.empty"
    by (simp add: call_search_object_def search_object_store_result alloc_def)
  with n show "fst (call_search_object leaves default_kwargs tn loader d ot nm None h) =
        fst (call_search_object leaves default_kwargs tn loader d ot nm
               (Some (fst (alloc Map.empty h))) (snd (alloc Map.empty h)))"
    by simp
  from a have p: "default_kwargs < next_addr h" "cells h default_kwargs = Map.empty"
    by simp_all
  show "fst (call_sequence leaves default_kwargs tn loader calls h) =
        map (\<lambda>(d, ot, nm, given).
               search_object tn loader d ot nm
                 (case given of None \<Rightarrow> Map.empty | Some items \<Rightarrow> items)) calls"
    using call_sequence_frame [OF p] by blast
  show "cells (snd (call_sequence leaves default_kwargs tn loader calls h)) default_kwargs
        = Map.empty"
    using call_sequence_frame [OF p] by blast
qed

text \<open>
  The constructor adds an item to the dictionary it received: the item is in that
  dictionary, at address 1, and not in the default dictionary. A call with \<open>paramA\<close>
  and then a call without keyword arguments: the second instance has no attribute.
\<close>

theorem search_object_kwargs_unchanged_witness:
  "cells (snd (call_search_object ex_leaves 0 ''Strategy'' ex_loader (ex_dir [''/s/foo.py''])
                 ex_IStrategy ''MyStrat'' None ex_store)) 0 = Map.empty \<and>
   cells (snd (call_search_object ex_leaves 0 ''Strategy'' ex_loader (ex_dir [''/s/foo.py''])
                 ex_IStrategy ''MyStrat'' None ex_store)) 1 = [''seen'' \<mapsto> PyInt 1] \<and>
   map fst (fst (call_sequence ex_leaves 0 ''Strategy'' ex_loader
      [(ex_dir [''/s/foo.py''], ex_IStrategy, ''MyStrat'', Some [''paramA'' \<mapsto> PyInt 5]),
       (ex_dir [''/s/foo.py''], ex_IStrategy, ''MyStrat'', None)] ex_store))
     = [Inr (Some (Instance 2 [''paramA'' \<mapsto> PyInt 5], ''/s/foo.py'')),
        Inr (Some (Instance 2 Map.empty, ''/s/foo.py''))] \<and>
   cells (snd (call_sequence ex_leaves 0 ''Strategy'' ex_loader
      [(ex_dir [''/s/foo.py''], ex_IStrategy, ''MyStrat'', Some [''paramA'' \<mapsto> PyInt 5]),
       (ex_dir [''/s/foo.py''], ex_IStrategy, ''MyStrat'', None)] ex_store)) 0 = Map.empty"
proof -
  let ?calls = "[(ex_dir [''/s/foo.py''], ex_IStrategy, ''MyStrat'', Some [''paramA'' \<mapsto> PyInt 5]),
                 (ex_dir [''/s/foo.py''], ex_IStrategy, ''MyStrat'', None)]"
  have h: "(0::nat) < next_addr ex_store" "cells ex_store 0 = Map.empty"
    by (simp_all add: ex_store_def)
  have s1: "fst (search_object ''Strategy'' ex_loader (ex_dir [''/s/foo.py'']) ex_IStrategy
              ''MyStrat'' [''paramA'' \<mapsto> PyInt 5])
             = Inr (Some (Instance 2 [''paramA'' \<mapsto> PyInt 5], ''/s/foo.py''))"
    by (simp add: ex_defs eval_defs search_object_def)
  have s2: "fst (search_object ''Strategy'' ex_loader (ex_dir [''/s/foo.py'']) ex_IStrategy
              ''MyStrat'' Map.empty)
             = Inr (Some (Instance 2 Map.empty, ''/s/foo.py''))"
    by (simp add: ex_defs eval_defs search_object_def)
  have own: "cells (snd (call_search_object ex_leaves 0 ''Strategy'' ex_loader
                 (ex_dir [''/s/foo.py'']) ex_IStrategy ''MyStrat'' None ex_store)) 1
               = [''seen'' \<mapsto> PyInt 1]"
    by (simp add: ex_defs eval_defs ex_store_def ex_leaves_def call_search_object_def
                  search_object_store_def alloc_def)
  note t = search_object_kwargs_unchanged [of 0 ex_store ex_leaves 0 "''Strategy''" ex_loader
             "ex_dir [''/s/foo.py'']" ex_IStrategy "''MyStrat''" None ?calls]
  have a: "cells (snd (call_search_object ex_leaves 0 ''Strategy'' ex_loader
                 (ex_dir [''/s/foo.py'']) ex_IStrategy ''MyStrat'' None ex_store)) 0 = Map.empty"
    using t h by simp
  have b: "map fst (fst (call_sequence ex_leaves 0 ''Strategy'' ex_loader ?calls ex_store))
     = [Inr (Some (Instance 2 [''paramA'' \<mapsto> PyInt 5], ''/s/foo.py'')),
        Inr (Some (Instance 2 Map.empty, ''/s/foo.py''))]"
    using t h s1 s2 by simp
  have c: "cells (snd (call_sequence ex_leaves 0 ''Strategy'' ex_loader ?calls ex_store)) 0
             = Map.empty"
    using t h by simp
  show ?thesis using a own b c by blast
qed

end
